theory Spec2Isabelle
  imports Main
begin

section \<open>Python values, exceptions and the classes of potassium.py\<close>

text \<open>
  The values a user function can hand back. \<open>PyResponse status json\<close> is an instance of
  the class \<open>Response\<close> (exactly that class); \<open>PyDict\<close> is an instance of \<open>dict\<close>
  (exactly that class, which is what \<open>type(x) != dict\<close> asks for); \<open>PyObject c\<close> is an
  instance of any other class, named \<open>c\<close>, one that no JSON encoder accepts.
\<close>

datatype pyval =
    PyNone
  | PyBool bool
  | PyInt int
  | PyStr string
  | PyBytes string
  | PyList "pyval list"
  | PyDict "(string \<times> pyval) list"
  | PyResponse int pyval
  | PyObject string

text \<open>
  A raised exception. \<open>PyExc is_exc cls msg\<close> is an instance of class \<open>cls\<close> with message
  \<open>msg\<close>; \<open>is_exc\<close> tells whether \<open>cls\<close> derives from \<open>Exception\<close> (as opposed to
  deriving from \<open>BaseException\<close> only, like \<open>SystemExit\<close>). The source has both a bare
  \<open>except:\<close> (line 124), which catches every exception, and \<open>except Exception\<close>
  (line 141), which catches only the former. \<open>HTTPException code\<close> is what \<open>abort(code)\<close>
  and \<open>raise HTTPException(status_code=code)\<close> raise.
\<close>

datatype pyexc = PyExc bool string string | HTTPException int

fun is_Exception :: "pyexc \<Rightarrow> bool" where
  "is_Exception (PyExc b c m) = b"
| "is_Exception (HTTPException code) = True"

text \<open>A call either returns a value (\<open>Inr\<close>) or raises (\<open>Inl\<close>).\<close>

type_synonym 'a result = "pyexc + 'a"

text \<open>\<open>class Request\<close> (lines 20 to 22).\<close>

record Request =
  json :: pyval

text \<open>
  \<open>class Endpoint\<close> (lines 14 to 17). \<open>func\<close> is the wrapper closure built by the
  decorators; the wrapper reads \<open>self._context\<close> when it is called, so the context is
  its first argument here.
\<close>

record Endpoint =
  type :: string
  func :: "pyval \<Rightarrow> Request \<Rightarrow> pyval result"

section \<open>Response objects of the two transport libraries\<close>

text \<open>
  \<open>FlaskResponse\<close> is flask's response class, \<open>StarletteJSONResponse\<close> the class
  \<open>fastapi.responses.JSONResponse\<close>, and \<open>ErrorPage\<close> the response a library sends of
  its own accord for an error; the body of an error page is not modelled.
\<close>

datatype response_class = FlaskResponse | StarletteJSONResponse | ErrorPage

record response =
  cls :: response_class
  content :: "pyval option"
  status_code :: int
  headers :: "(string \<times> string) list"

text \<open>
  What both JSON encoders accept: \<open>None\<close>, booleans, integers, strings, and lists and
  dictionaries of such values. \<open>bytes\<close> and instances of other classes are refused
  with a \<open>TypeError\<close>.
\<close>

fun json_encodable :: "pyval \<Rightarrow> bool" where
  "json_encodable PyNone = True"
| "json_encodable (PyBool b) = True"
| "json_encodable (PyInt i) = True"
| "json_encodable (PyStr t) = True"
| "json_encodable (PyBytes b) = False"
| "json_encodable (PyList xs) = list_all json_encodable xs"
| "json_encodable (PyDict kvs) = list_all json_encodable (map snd kvs)"
| "json_encodable (PyResponse st j) = False"
| "json_encodable (PyObject c) = False"

text \<open>
  \<open>flask.make_response\<close>, a library function. It builds the response through
  \<open>current_app\<close>, so it raises \<open>RuntimeError\<close> when the calling thread has no Flask
  application context (the first argument tells whether it has one). Inside one: without
  argument it gives an empty response; a string or \<open>bytes\<close> becomes the body; a
  dictionary or a list is encoded as JSON at once, which raises for a value the encoder
  refuses; any other value is no valid response. The status is 200.
\<close>

definition make_response :: "bool \<Rightarrow> pyval option \<Rightarrow> response result" where
  "make_response app_context rv =
     (if \<not> app_context then
        Inl (PyExc True ''RuntimeError'' ''Working outside of application context.'')
      else
        (case rv of
           None \<Rightarrow> Inr \<lparr>cls = FlaskResponse, content = None, status_code = 200, headers = []\<rparr>
         | Some v \<Rightarrow>
             (case v of
                PyStr t \<Rightarrow>
                  Inr \<lparr>cls = FlaskResponse, content = Some v, status_code = 200, headers = []\<rparr>
              | PyBytes b \<Rightarrow>
                  Inr \<lparr>cls = FlaskResponse, content = Some v, status_code = 200, headers = []\<rparr>
              | PyDict d \<Rightarrow>
                  if json_encodable v then
                    Inr \<lparr>cls = FlaskResponse, content = Some v, status_code = 200, headers = []\<rparr>
                  else Inl (PyExc True ''TypeError'' ''Object is not JSON serializable'')
              | PyList xs \<Rightarrow>
                  if json_encodable v then
                    Inr \<lparr>cls = FlaskResponse, content = Some v, status_code = 200, headers = []\<rparr>
                  else Inl (PyExc True ''TypeError'' ''Object is not JSON serializable'')
              | _ \<Rightarrow>
                  Inl (PyExc True ''TypeError''
                        ''The view function did not return a valid response.''))))"

text \<open>
  \<open>fastapi.responses.JSONResponse\<close>, a library class. Its constructor requires the
  content (a call without argument raises \<open>TypeError\<close>) and encodes it as JSON at once,
  which raises for a value the encoder refuses. The status is 200.
\<close>

definition JSONResponse :: "pyval option \<Rightarrow> response result" where
  "JSONResponse rv =
     (case rv of
        None \<Rightarrow>
          Inl (PyExc True ''TypeError'' ''missing 1 required positional argument: content'')
      | Some v \<Rightarrow>
          if json_encodable v then
            Inr \<lparr>cls = StarletteJSONResponse, content = Some v, status_code = 200,
                 headers = []\<rparr>
          else Inl (PyExc True ''TypeError'' ''Object is not JSON serializable''))"

text \<open>\<open>res.headers[k] = v\<close>: the header \<open>k\<close> is set, replacing an earlier value.\<close>

definition set_header :: "string \<Rightarrow> string \<Rightarrow> response \<Rightarrow> response" where
  "set_header k v res = res\<lparr>headers := (k, v) # filter (\<lambda>h. fst h \<noteq> k) (headers res)\<rparr>"

definition get_header :: "string \<Rightarrow> response \<Rightarrow> string option" where
  "get_header k res = map_of (headers res) k"

text \<open>
  \<open>traceback.format_exc()\<close>, a library function: it renders the exception being
  handled as text. Only the last line of that text is modelled, the class and, when
  there is one, the message; the stack frames are left out.
\<close>

fun format_exc :: "pyexc \<Rightarrow> string" where
  "format_exc (PyExc b c m) = (if m = [] then c else c @ '': '' @ m)"
| "format_exc (HTTPException code) = ''HTTPException''"

section \<open>The application object\<close>

text \<open>
  What the code does that can be observed from outside a call, in order: the calls to
  \<open>get_json\<close>, to a user function, to \<open>print\<close>, to \<open>Queue.put\<close>, to
  \<open>Thread.start\<close>, and the acquisitions and releases of the lock.
\<close>

datatype event =
    GetJson
  | LockAcquired
  | LockReleased
  | Invoked string
  | Printed string
  | Put bool
  | ThreadStarted

text \<open>
  The position of a running \<open>task\<close> (lines 137 to 145):
  \<open>AtWith\<close> before \<open>with lock:\<close>; \<open>InTry\<close> inside \<open>try:\<close>, the lock held, before
  \<open>endpoint.func(req)\<close>; \<open>InExcept e\<close> in the \<open>except Exception\<close> clause with \<open>e\<close>
  caught; \<open>ExitWith r\<close> leaving the \<open>with\<close> block, normally (\<open>None\<close>) or with an
  exception in flight; \<open>AfterWith\<close> before the last statement (line 145); \<open>Done\<close> and
  \<open>Died e\<close> once the thread has ended, normally or by the exception \<open>e\<close>.
\<close>

datatype task_pc =
    AtWith
  | InTry
  | InExcept pyexc
  | ExitWith "pyexc option"
  | AfterWith
  | Done
  | Died pyexc

text \<open>A started \<open>Thread(target=task, args=(endpoint, self._lock, req))\<close>.\<close>

record thread =
  t_endpoint :: Endpoint
  t_req :: Request
  t_pc :: task_pc

text \<open>
  \<open>class Potassium\<close>: the fields set by \<open>__init__\<close> (lines 34 to 46), without their
  leading underscore. \<open>lock\<close> is \<open>True\<close> when the \<open>Lock\<close> is held. \<open>event_chan\<close> is
  the content of the \<open>Queue(maxsize=1)\<close>, oldest item first. \<open>init_func\<close> is \<open>None\<close>
  for \<open>default_func\<close>. \<open>threads\<close> are the threads started so far, and \<open>trace\<close> the events
  so far; neither is a field of the class. \<open>ctx\<close> is the field \<open>_context\<close>.
\<close>

record app =
  name :: string
  backend :: string
  init_func :: "(unit \<Rightarrow> pyval) option"
  endpoints :: "string \<rightharpoonup> Endpoint"
  ctx :: pyval
  lock :: bool
  event_chan :: "bool list"
  threads :: "thread list"
  trace :: "event list"

definition Potassium :: "string \<Rightarrow> string \<Rightarrow> app" where
  "Potassium nm be =
     \<lparr>name = nm, backend = be, init_func = None, endpoints = Map.empty,
      ctx = PyDict [], lock = False, event_chan = [], threads = [], trace = []\<rparr>"

definition log :: "event \<Rightarrow> app \<Rightarrow> app" where
  "log ev s = s\<lparr>trace := trace s @ [ev]\<rparr>"

section \<open>The event channel\<close>

text \<open>
  \<open>queue.Queue\<close>, a library class. \<open>put(item, block=False)\<close>
  raises \<open>Full\<close> when the queue already holds \<open>maxsize\<close> items and appends the item
  otherwise; \<open>get()\<close> waits while the queue is empty and removes and returns the oldest
  item otherwise.
  A call that has to wait has no result in the current state: \<open>None\<close>.
\<close>

datatype queue_error = Full

definition maxsize :: nat where
  "maxsize = 1"

definition queue_put_nowait :: "bool list \<Rightarrow> bool \<Rightarrow> queue_error + bool list" where
  "queue_put_nowait q item = (if maxsize \<le> length q then Inl Full else Inr (q @ [item]))"

definition queue_get :: "bool list \<Rightarrow> (bool \<times> bool list) option" where
  "queue_get q = (case q of [] \<Rightarrow> None | item # rest \<Rightarrow> Some (item, rest))"

text \<open>\<open>_write_event_chan\<close> (lines 155 to 159).\<close>

definition write_event_chan :: "bool \<Rightarrow> app \<Rightarrow> app" where
  "write_event_chan item s =
     (case queue_put_nowait (event_chan s) item of
        Inr q \<Rightarrow> log (Put item) (s\<lparr>event_chan := q\<rparr>)
      | Inl Full \<Rightarrow> log (Put item) s)"

text \<open>\<open>_read_event_chan\<close> (lines 161 and 162).\<close>

definition read_event_chan :: "app \<Rightarrow> (bool \<times> app) option" where
  "read_event_chan s =
     (case queue_get (event_chan s) of
        None \<Rightarrow> None
      | Some (item, q) \<Rightarrow> Some (item, s\<lparr>event_chan := q\<rparr>))"

text \<open>\<open>_is_working\<close> (lines 164 and 165).\<close>

definition is_working :: "app \<Rightarrow> bool" where
  "is_working s = lock s"

section \<open>Registration\<close>

text \<open>\<open>init\<close> (lines 49 to 63): stores the function that \<open>serve\<close> will run.\<close>

definition init :: "(unit \<Rightarrow> pyval) \<Rightarrow> app \<Rightarrow> app" where
  "init f s = s\<lparr>init_func := Some f\<rparr>"

text \<open>
  The \<open>wrapper\<close> of \<open>handler\<close> (lines 71 to 82): it calls the user function and raises
  unless the value returned is a \<open>Response\<close> whose \<open>json\<close> is a \<open>dict\<close>.
\<close>

definition handler_wrapper ::
  "(pyval \<Rightarrow> Request \<Rightarrow> pyval result) \<Rightarrow> pyval \<Rightarrow> Request \<Rightarrow> pyval result" where
  "handler_wrapper f c request =
     (case f c request of
        Inl e \<Rightarrow> Inl e
      | Inr out \<Rightarrow>
          (case out of
             PyResponse st j \<Rightarrow>
               (case j of
                  PyDict d \<Rightarrow> Inr out
                | _ \<Rightarrow> Inl (PyExc True ''Exception''
                            ''Potassium Response object json must be a dict''))
           | _ \<Rightarrow> Inl (PyExc True ''Exception'' ''Potassium Response object not returned'')))"

text \<open>The \<open>wrapper\<close> of \<open>background\<close> (lines 95 to 97): it only calls the user function.\<close>

definition background_wrapper ::
  "(pyval \<Rightarrow> Request \<Rightarrow> pyval result) \<Rightarrow> pyval \<Rightarrow> Request \<Rightarrow> pyval result" where
  "background_wrapper f c request = f c request"

text \<open>
  \<open>handler(route)(func)\<close> and \<open>background(route)(func)\<close> (lines 66 to 102):
  \<open>self._endpoints[route] = Endpoint(...)\<close> is a plain dictionary store.
\<close>

definition handler :: "string \<Rightarrow> (pyval \<Rightarrow> Request \<Rightarrow> pyval result) \<Rightarrow> app \<Rightarrow> app" where
  "handler route f s =
     s\<lparr>endpoints := (endpoints s)(route \<mapsto> \<lparr>type = ''handler'', func = handler_wrapper f\<rparr>)\<rparr>"

definition background :: "string \<Rightarrow> (pyval \<Rightarrow> Request \<Rightarrow> pyval result) \<Rightarrow> app \<Rightarrow> app" where
  "background route f s =
     s\<lparr>endpoints :=
         (endpoints s)(route \<mapsto> \<lparr>type = ''background'', func = background_wrapper f\<rparr>)\<rparr>"

section \<open>The gate: \<open>_handle_generic\<close>\<close>

text \<open>
  The third argument of \<open>_handle_generic\<close>. Under Flask it is the \<open>request\<close> proxy,
  given here by the outcome of its \<open>get_json()\<close>: the parsed body, or the
  \<open>HTTPException\<close> that \<open>get_json()\<close> raises (415 when the content type is not JSON,
  400 when the body does not parse); parsing itself is the library's. Under FastAPI it is
  the \<open>bytes\<close> that \<open>await request.body()\<close> returned, and \<open>bytes\<close> has no \<open>get_json\<close>.
\<close>

datatype transport_request = FlaskRequest "pyval result" | Body string

fun get_json :: "transport_request \<Rightarrow> pyval result" where
  "get_json (FlaskRequest outcome) = outcome"
| "get_json (Body b) =
     Inl (PyExc True ''AttributeError'' ''bytes object has no attribute get_json'')"

fun as_pyval :: "transport_request \<Rightarrow> pyval" where
  "as_pyval (FlaskRequest outcome) = PyObject ''LocalProxy''"
| "as_pyval (Body b) = PyBytes b"

text \<open>
  Whether the call runs inside a Flask application context: it does when Flask's view
  function made it (the \<open>request\<close> proxy is its argument), and it does not when
  FastAPI's \<open>handle\<close> made it, for no Flask application exists then.
\<close>

fun flask_context :: "transport_request \<Rightarrow> bool" where
  "flask_context (FlaskRequest outcome) = True"
| "flask_context (Body b) = False"

text \<open>
  \<open>req_json = flask_request.get_json() if self.backend != "FastAPI" else flask_request\<close>
  (lines 115 and 133).
\<close>

definition req_json :: "transport_request \<Rightarrow> app \<Rightarrow> pyval result \<times> app" where
  "req_json flask_request s =
     (if backend s \<noteq> ''FastAPI'' then (get_json flask_request, log GetJson s)
      else (Inr (as_pyval flask_request), s))"

text \<open>
  The \<open>except:\<close> clause of the blocking path (lines 124 to 130). It catches every
  exception. An exception that the constructor call of line 127 raises is raised inside
  the clause and leaves the function.
\<close>

definition except_branch ::
  "Endpoint \<Rightarrow> transport_request \<Rightarrow> pyexc \<Rightarrow> app \<Rightarrow> response result \<times> app" where
  "except_branch endpoint flask_request e s =
     (let tb_str = format_exc e;
          s = log (Printed tb_str) s
      in case (if backend s \<noteq> ''FastAPI'' then JSONResponse (Some (PyStr tb_str))
               else make_response (flask_context flask_request) (Some (PyStr tb_str))) of
           Inl e' \<Rightarrow> (Inl e', s)
         | Inr res \<Rightarrow>
             (let res = res\<lparr>status_code := 500\<rparr>;
                  res = set_header ''X-Endpoint-Type'' (type endpoint) res
              in (Inr res, s)))"

text \<open>
  The \<open>try:\<close> block of the blocking path (lines 118 to 123). An exception of the user
  function, of reading \<open>out.json\<close> of a value that is no \<open>Response\<close>, or of the
  constructor call of line 120 is caught by the \<open>except:\<close> clause.
\<close>

definition try_branch ::
  "Endpoint \<Rightarrow> Request \<Rightarrow> transport_request \<Rightarrow> app \<Rightarrow> response result \<times> app" where
  "try_branch endpoint req flask_request s =
     (let s = log (Invoked (type endpoint)) s
      in case func endpoint (ctx s) req of
           Inl e \<Rightarrow> except_branch endpoint flask_request e s
         | Inr out \<Rightarrow>
             (case out of
                PyResponse st j \<Rightarrow>
                  (case (if backend s = ''FastAPI'' then JSONResponse (Some j)
                         else make_response (flask_context flask_request) (Some j)) of
                     Inl e \<Rightarrow> except_branch endpoint flask_request e s
                   | Inr res \<Rightarrow>
                       (let res = res\<lparr>status_code := st\<rparr>;
                            res = set_header ''X-Endpoint-Type'' (type endpoint) res
                        in (Inr res, s)))
              | _ \<Rightarrow>
                  except_branch endpoint flask_request
                    (PyExc True ''AttributeError'' ''object has no attribute json'') s))"

text \<open>
  \<open>with self._lock:\<close> (line 117), entered after the probe has seen the lock free. The
  \<open>with\<close> statement releases the lock on every way out of its body, a return or an
  exception.
\<close>

definition with_lock :: "(app \<Rightarrow> 'a \<times> app) \<Rightarrow> app \<Rightarrow> 'a \<times> app" where
  "with_lock body s =
     (let s = log LockAcquired (s\<lparr>lock := True\<rparr>);
          (res, s) = body s
      in (res, log LockReleased (s\<lparr>lock := False\<rparr>)))"

text \<open>
  \<open>_handle_generic\<close> (lines 105 to 153). The result is the returned response object,
  \<open>None\<close> when the function falls off its end (an endpoint type other than the two),
  or the exception that leaves the function. The constructor calls of lines 109 and 151
  stand outside any \<open>try\<close>. Starting the thread puts it, at \<open>AtWith\<close>, among the threads
  of the application; it runs by \<open>task_step\<close> below.
\<close>

definition handle_generic ::
  "string \<Rightarrow> Endpoint \<Rightarrow> transport_request \<Rightarrow> app \<Rightarrow> response option result \<times> app" where
  "handle_generic route endpoint flask_request s =
     (if is_working s then
        (case (if backend s \<noteq> ''FastAPI'' then JSONResponse None
               else make_response (flask_context flask_request) None) of
           Inl e \<Rightarrow> (Inl e, s)
         | Inr res \<Rightarrow>
             (let res = res\<lparr>status_code := 423\<rparr>;
                  res = set_header ''X-Endpoint-Type'' (type endpoint) res
              in (Inr (Some res), s)))
      else if type endpoint = ''handler'' then
        (case req_json flask_request s of
           (Inl e, s) \<Rightarrow> (Inl e, s)
         | (Inr j, s) \<Rightarrow>
             (let req = \<lparr>json = j\<rparr>;
                  (res, s) = with_lock (try_branch endpoint req flask_request) s
              in (case res of Inl e \<Rightarrow> Inl e | Inr res \<Rightarrow> Inr (Some res), s)))
      else if type endpoint = ''background'' then
        (case req_json flask_request s of
           (Inl e, s) \<Rightarrow> (Inl e, s)
         | (Inr j, s) \<Rightarrow>
             (let req = \<lparr>json = j\<rparr>;
                  thread = \<lparr>t_endpoint = endpoint, t_req = req, t_pc = AtWith\<rparr>;
                  s = log ThreadStarted (s\<lparr>threads := threads s @ [thread]\<rparr>)
              in case make_response (flask_context flask_request)
                        (Some (PyDict [(''started'', PyBool True)])) of
                   Inl e \<Rightarrow> (Inl e, s)
                 | Inr res \<Rightarrow>
                     (Inr (Some (set_header ''X-Endpoint-Type'' (type endpoint) res)), s)))
      else (Inr None, s))"

section \<open>The background task\<close>

text \<open>
  One step of \<open>task\<close> (lines 137 to 145). \<open>with lock:\<close> waits while the lock is held
  (no step: \<open>None\<close>). \<open>except Exception\<close> catches an exception only when it derives
  from \<open>Exception\<close>; any other leaves the \<open>with\<close> block at once. A caught exception is
  raised again after the write, so line 145 is not reached on that path.
\<close>

definition task_step :: "thread \<Rightarrow> app \<Rightarrow> (thread \<times> app) option" where
  "task_step t s =
     (case t_pc t of
        AtWith \<Rightarrow>
          if lock s then None
          else Some (t\<lparr>t_pc := InTry\<rparr>, log LockAcquired (s\<lparr>lock := True\<rparr>))
      | InTry \<Rightarrow>
          (let s = log (Invoked (type (t_endpoint t))) s
           in case func (t_endpoint t) (ctx s) (t_req t) of
                Inr v \<Rightarrow> Some (t\<lparr>t_pc := ExitWith None\<rparr>, s)
              | Inl e \<Rightarrow>
                  if is_Exception e then Some (t\<lparr>t_pc := InExcept e\<rparr>, s)
                  else Some (t\<lparr>t_pc := ExitWith (Some e)\<rparr>, s))
      | InExcept e \<Rightarrow> Some (t\<lparr>t_pc := ExitWith (Some e)\<rparr>, write_event_chan True s)
      | ExitWith r \<Rightarrow>
          Some (t\<lparr>t_pc := (case r of None \<Rightarrow> AfterWith | Some e \<Rightarrow> Died e)\<rparr>,
                log LockReleased (s\<lparr>lock := False\<rparr>))
      | AfterWith \<Rightarrow> Some (t\<lparr>t_pc := Done\<rparr>, write_event_chan True s)
      | Done \<Rightarrow> None
      | Died e \<Rightarrow> None)"

text \<open>The scheduler lets the \<open>i\<close>-th started thread take one step.\<close>

definition thread_step :: "nat \<Rightarrow> app \<Rightarrow> app option" where
  "thread_step i s =
     (if i < length (threads s) then
        (case task_step (threads s ! i) s of
           None \<Rightarrow> None
         | Some (t, s) \<Rightarrow> Some (s\<lparr>threads := (threads s)[i := t]\<rparr>))
      else None)"

text \<open>
  A thread running on its own for at most \<open>n\<close> steps, until it has ended or has to wait.
\<close>

fun run_task :: "nat \<Rightarrow> thread \<Rightarrow> app \<Rightarrow> thread \<times> app" where
  "run_task 0 t s = (t, s)"
| "run_task (Suc n) t s =
     (case task_step t s of None \<Rightarrow> (t, s) | Some (t', s') \<Rightarrow> run_task n t' s')"

fun ended :: "task_pc \<Rightarrow> bool" where
  "ended Done = True"
| "ended (Died e) = True"
| "ended pc = False"

text \<open>The number of calls to \<open>Queue.put\<close> in a trace.\<close>

fun is_Put :: "event \<Rightarrow> bool" where
  "is_Put (Put item) = True"
| "is_Put ev = False"

definition puts :: "event list \<Rightarrow> nat" where
  "puts evs = length (filter is_Put evs)"

section \<open>The two backends and \<open>serve\<close>\<close>

text \<open>
  \<open>handle\<close> of \<open>_create_flask_app\<close> (lines 192 to 198); \<open>request\<close> is the outcome
  of \<open>get_json()\<close> of Flask's \<open>request\<close> proxy for the current call.
\<close>

definition flask_handle ::
  "string \<Rightarrow> pyval result \<Rightarrow> app \<Rightarrow> response option result \<times> app" where
  "flask_handle path request s =
     (let route = ''/'' @ path
      in case endpoints s route of
           None \<Rightarrow> (Inl (HTTPException 404), s)
         | Some endpoint \<Rightarrow> handle_generic route endpoint (FlaskRequest request) s)"

text \<open>
  \<open>handle\<close> of \<open>_create_fastapi_app\<close> (lines 170 to 177); \<open>request_json\<close> is the result
  of \<open>await request.body()\<close>.
\<close>

definition fastapi_handle :: "string \<Rightarrow> string \<Rightarrow> app \<Rightarrow> response option result \<times> app" where
  "fastapi_handle path request_json s =
     (let route = ''/'' @ path
      in case endpoints s route of
           None \<Rightarrow> (Inl (HTTPException 404), s)
         | Some endpoint \<Rightarrow> handle_generic route endpoint (Body request_json) s)"

text \<open>
  A POST as it arrives: the path after the first slash, the body, and the outcome of
  Flask's \<open>get_json()\<close> for it.
\<close>

record wire_request =
  w_path :: string
  w_body :: string
  w_json :: "pyval result"

text \<open>
  \<open>serve\<close> (lines 203 to 215) first runs the stored init function, which sets the
  context (\<open>default_func\<close> sets nothing), then serves the app of the backend.
\<close>

definition serve_init :: "app \<Rightarrow> app" where
  "serve_init s = (case init_func s of None \<Rightarrow> s | Some f \<Rightarrow> s\<lparr>ctx := f ()\<rparr>)"

text \<open>
  The spec's \<open>dispatch\<close>: the \<open>handle\<close> function of the app that \<open>serve\<close> creates for
  the backend, called for one request. Flask calls its view function with the path of
  the request. The FastAPI app registers \<open>handle\<close> with \<open>add_route\<close> (lines 181 and
  182), and a function registered so is called with the request alone: \<open>path\<close> keeps
  its default, the empty string, whatever the path of the request.
\<close>

definition dispatch :: "wire_request \<Rightarrow> app \<Rightarrow> response option result \<times> app" where
  "dispatch r s =
     (if backend s = ''FastAPI'' then fastapi_handle '''' (w_body r) s
      else flask_handle (w_path r) (w_json r) s)"

text \<open>
  What the transport library sends for the outcome of \<open>handle\<close>; this is the library's
  part. A response object of the library's own class is sent as it is. An object of the
  other library's class cannot be sent: Flask cannot turn a starlette response into a
  response of its own, starlette cannot call a Flask response, and either answers with
  its error page, status 500. So it is for a view that returned nothing and for an
  exception that left \<open>handle\<close>, but for an \<open>HTTPException\<close>, which is answered with an
  error page of its status code. An error page has no header of the application.
\<close>

definition library_response :: "int \<Rightarrow> response" where
  "library_response code = \<lparr>cls = ErrorPage, content = None, status_code = code, headers = []\<rparr>"

definition sendable :: "string \<Rightarrow> response \<Rightarrow> bool" where
  "sendable be res =
     (cls res = (if be = ''FastAPI'' then StarletteJSONResponse else FlaskResponse))"

fun wire_response :: "string \<Rightarrow> response option result \<Rightarrow> response" where
  "wire_response be (Inr (Some res)) = (if sendable be res then res else library_response 500)"
| "wire_response be (Inr None) = library_response 500"
| "wire_response be (Inl (HTTPException code)) = library_response code"
| "wire_response be (Inl (PyExc b c m)) = library_response 500"

text \<open>
  The route that \<open>dispatch\<close> looks up for the request \<open>r\<close>, and the outcome of line 115
  or 133 for it: the \<open>req_json\<close> of the \<open>Request\<close> that is built, or the exception of
  \<open>get_json()\<close>.
\<close>

definition route_of :: "wire_request \<Rightarrow> app \<Rightarrow> string" where
  "route_of r s = (if backend s = ''FastAPI'' then ''/'' else ''/'' @ w_path r)"

definition request_json :: "wire_request \<Rightarrow> app \<Rightarrow> pyval result" where
  "request_json r s = (if backend s = ''FastAPI'' then Inr (PyBytes (w_body r)) else w_json r)"

section \<open>Reachable states\<close>

text \<open>
  The states an application object can be in: created by \<open>__init__\<close>, then changed by
  the registration calls, by \<open>serve\<close> running the init function, by a request being
  handled, by a started thread taking a step, and by a write to or a read from the
  event channel.
\<close>

inductive reachable :: "app \<Rightarrow> bool" where
  created: "reachable (Potassium nm be)"
| init_called: "reachable s \<Longrightarrow> reachable (init f s)"
| handler_called: "reachable s \<Longrightarrow> reachable (handler route f s)"
| background_called: "reachable s \<Longrightarrow> reachable (background route f s)"
| served: "reachable s \<Longrightarrow> reachable (serve_init s)"
| dispatched: "reachable s \<Longrightarrow> reachable (snd (dispatch r s))"
| stepped: "reachable s \<Longrightarrow> thread_step i s = Some s' \<Longrightarrow> reachable s'"
| written: "reachable s \<Longrightarrow> reachable (write_event_chan item s)"
| read: "reachable s \<Longrightarrow> read_event_chan s = Some (item, s') \<Longrightarrow> reachable s'"

section \<open>Example applications\<close>

text \<open>
  User functions: \<open>predict\<close> returns \<open>Response(status=200, json={"result": 42})\<close>,
  \<open>train\<close> returns \<open>None\<close>, \<open>failing\<close> raises a \<open>ValueError\<close>, \<open>exiting\<close> calls
  \<open>sys.exit(0)\<close>, \<open>listing\<close> returns a \<open>Response\<close> whose \<open>json\<close> is a list, and
  \<open>blob\<close> one whose \<open>json\<close> is \<open>{"blob": b"abc"}\<close>.
\<close>

definition predict :: "pyval \<Rightarrow> Request \<Rightarrow> pyval result" where
  "predict c request = Inr (PyResponse 200 (PyDict [(''result'', PyInt 42)]))"

definition train :: "pyval \<Rightarrow> Request \<Rightarrow> pyval result" where
  "train c request = Inr PyNone"

definition failing :: "pyval \<Rightarrow> Request \<Rightarrow> pyval result" where
  "failing c request = Inl (PyExc True ''ValueError'' ''bad input'')"

definition exiting :: "pyval \<Rightarrow> Request \<Rightarrow> pyval result" where
  "exiting c request = Inl (PyExc False ''SystemExit'' ''0'')"

definition listing :: "pyval \<Rightarrow> Request \<Rightarrow> pyval result" where
  "listing c request = Inr (PyResponse 200 (PyList []))"

definition blob :: "pyval \<Rightarrow> Request \<Rightarrow> pyval result" where
  "blob c request = Inr (PyResponse 200 (PyDict [(''blob'', PyBytes ''abc'')]))"

text \<open>A user function that raises \<open>e\<close> whatever it is given.\<close>

definition raising :: "pyexc \<Rightarrow> pyval \<Rightarrow> Request \<Rightarrow> pyval result" where
  "raising e c request = Inl e"

definition example_app :: "string \<Rightarrow> app" where
  "example_app be =
     background ''/exit'' exiting
       (background ''/retrain'' failing
          (background ''/train'' train
             (handler ''/list'' listing
                (handler ''/fail'' failing
                   (handler ''/predict'' predict (Potassium ''example'' be))))))"

text \<open>Applications with one endpoint, at the route \<open>/\<close>.\<close>

definition blocking_app :: "string \<Rightarrow> (pyval \<Rightarrow> Request \<Rightarrow> pyval result) \<Rightarrow> app" where
  "blocking_app be f = handler ''/'' f (Potassium ''example'' be)"

definition background_app :: "string \<Rightarrow> (pyval \<Rightarrow> Request \<Rightarrow> pyval result) \<Rightarrow> app" where
  "background_app be f = background ''/'' f (Potassium ''example'' be)"

text \<open>A POST to the given path with the body \<open>{}\<close>, which \<open>get_json()\<close> parses.\<close>

definition post :: "string \<Rightarrow> wire_request" where
  "post path = \<lparr>w_path = path, w_body = ''{}'', w_json = Inr (PyDict [])\<rparr>"

text \<open>
  The state after a request has been handled, and the state after the first thread of
  the application has taken a step, if it can take one.
\<close>

definition after :: "wire_request \<Rightarrow> app \<Rightarrow> app" where
  "after r s = snd (dispatch r s)"

definition first_thread_stepped :: "app \<Rightarrow> app" where
  "first_thread_stepped s = (case thread_step 0 s of None \<Rightarrow> s | Some s' \<Rightarrow> s')"

text \<open>
  \<open>busy_app\<close>: under Flask a request to \<open>/train\<close> has been accepted and its thread has
  entered the \<open>with\<close> block, so the lock is held by a background task.
  \<open>busy_root\<close>: the same under FastAPI, for a background endpoint at \<open>/\<close>.
\<close>

definition busy_app :: app where
  "busy_app = first_thread_stepped (after (post ''train'') (example_app ''Flask''))"

definition busy_root :: app where
  "busy_root = first_thread_stepped (after (post '''') (background_app ''FastAPI'' train))"

text \<open>
  \<open>exit_started\<close>: under Flask a request to \<open>/exit\<close> has been accepted and its thread,
  the first of the application, started.
\<close>

definition exit_started :: app where
  "exit_started = after (post ''exit'') (example_app ''Flask'')"

section \<open>What a request leaves untouched\<close>

lemma log_simps [simp]:
  "backend (log ev s) = backend s" "ctx (log ev s) = ctx s" "lock (log ev s) = lock s"
  "threads (log ev s) = threads s" "trace (log ev s) = trace s @ [ev]"
  "endpoints (log ev s) = endpoints s" "event_chan (log ev s) = event_chan s"
  by (simp_all add: log_def)

lemma except_branch_frame [simp]:
  "event_chan (snd (except_branch endpoint fr e s)) = event_chan s"
  "endpoints (snd (except_branch endpoint fr e s)) = endpoints s"
  by (simp_all add: except_branch_def Let_def split: sum.splits)

lemma try_branch_frame [simp]:
  "event_chan (snd (try_branch endpoint req fr s)) = event_chan s"
  "endpoints (snd (try_branch endpoint req fr s)) = endpoints s"
  by (simp_all add: try_branch_def Let_def split: sum.splits pyval.splits)

lemma with_lock_frame [simp]:
  "event_chan (snd (with_lock (try_branch endpoint req fr) s)) = event_chan s"
  "endpoints (snd (with_lock (try_branch endpoint req fr) s)) = endpoints s"
  by (simp_all add: with_lock_def Let_def split_beta)

lemma req_json_frame [simp]:
  "event_chan (snd (req_json fr s)) = event_chan s"
  "endpoints (snd (req_json fr s)) = endpoints s"
  by (simp_all add: req_json_def)

lemma handle_generic_frame:
  "event_chan (snd (handle_generic route endpoint fr s)) = event_chan s"
  "endpoints (snd (handle_generic route endpoint fr s)) = endpoints s"
proof -
  obtain x s1 where r: "req_json fr s = (x, s1)"
    by (cases "req_json fr s")
  then have s1: "event_chan s1 = event_chan s" "endpoints s1 = endpoints s"
    using req_json_frame [of fr s] by simp_all
  show "event_chan (snd (handle_generic route endpoint fr s)) = event_chan s"
    using r s1
    by (cases x) (simp_all add: handle_generic_def Let_def split_beta split: sum.splits)
  show "endpoints (snd (handle_generic route endpoint fr s)) = endpoints s"
    using r s1
    by (cases x) (simp_all add: handle_generic_def Let_def split_beta split: sum.splits)
qed

lemma dispatch_frame [simp]:
  "event_chan (snd (dispatch r s)) = event_chan s"
  "endpoints (snd (dispatch r s)) = endpoints s"
  by (simp_all add: dispatch_def flask_handle_def fastapi_handle_def handle_generic_frame
      Let_def split: option.splits)

section \<open>The event channel\<close>

lemma event_chan_write:
  "event_chan (write_event_chan item s) = (if event_chan s = [] then [item] else event_chan s)"
  by (cases "event_chan s") (simp_all add: write_event_chan_def queue_put_nowait_def maxsize_def)

lemma event_chan_read:
  "read_event_chan s = Some (item, s') \<Longrightarrow> event_chan s = item # event_chan s'"
  by (auto simp: read_event_chan_def queue_get_def split: list.splits)

lemma event_chan_task_step:
  "task_step t s = Some (t', s') \<Longrightarrow>
     event_chan s' = event_chan s \<or> event_chan s' = event_chan (write_event_chan True s)"
  by (auto simp: task_step_def Let_def split: task_pc.splits if_splits sum.splits)

lemma event_chan_thread_step:
  "thread_step i s = Some s' \<Longrightarrow>
     event_chan s' = event_chan s \<or> event_chan s' = event_chan (write_event_chan True s)"
  by (auto simp: thread_step_def split: if_splits option.splits dest!: event_chan_task_step)

lemma reachable_event_chan: "reachable s \<Longrightarrow> length (event_chan s) \<le> 1"
proof (induction rule: reachable.induct)
  case (created nm be)
  show ?case by (simp add: Potassium_def)
next
  case (init_called s f)
  then show ?case by (simp add: init_def)
next
  case (handler_called s route f)
  then show ?case by (simp add: handler_def)
next
  case (background_called s route f)
  then show ?case by (simp add: background_def)
next
  case (served s)
  then show ?case by (simp add: serve_init_def split: option.splits)
next
  case (dispatched s r)
  then show ?case by simp
next
  case (stepped s i s')
  from event_chan_thread_step [OF stepped.hyps(2)] stepped.IH show ?case
    by (auto simp: event_chan_write)
next
  case (written s item)
  then show ?case by (simp add: event_chan_write)
next
  case (read s item s')
  from event_chan_read [OF read.hyps(2)] read.IH show ?case by simp
qed

text \<open>
  Claim C4. In every reachable state the event channel holds at most one unread signal.
  A write while the slot is full returns at once and leaves the state as it was, apart from
  the record of the call in the trace: the new signal is dropped. A read while the slot is
  empty has to wait (it has no result in that state); a read while the slot holds \<open>v\<close>
  empties the slot and returns \<open>v\<close>. Two writes with no read between them leave exactly
  one pending signal.
\<close>

theorem event_chan_at_most_one:
  assumes "reachable s"
  shows "length (event_chan s) \<le> 1
       \<and> (event_chan s \<noteq> [] \<longrightarrow> write_event_chan item s = log (Put item) s)
       \<and> (event_chan s = [] \<longrightarrow> read_event_chan s = None)
       \<and> (event_chan s \<noteq> [] \<longrightarrow>
            read_event_chan s = Some (hd (event_chan s), s\<lparr>event_chan := []\<rparr>))
       \<and> length (event_chan (write_event_chan item' (write_event_chan item s))) = 1"
  using reachable_event_chan [OF assms]
  by (cases "event_chan s")
     (auto simp: event_chan_write read_event_chan_def queue_get_def write_event_chan_def
        queue_put_nowait_def maxsize_def)

theorem event_chan_at_most_one_witness:
  "reachable (write_event_chan True (Potassium ''example'' ''Flask''))
   \<and> event_chan (write_event_chan True (Potassium ''example'' ''Flask'')) = [True]
   \<and> write_event_chan True (write_event_chan True (Potassium ''example'' ''Flask'')) =
       log (Put True) (write_event_chan True (Potassium ''example'' ''Flask''))
   \<and> read_event_chan (write_event_chan True (Potassium ''example'' ''Flask'')) =
       Some (True, write_event_chan True (Potassium ''example'' ''Flask'')\<lparr>event_chan := []\<rparr>)
   \<and> length (event_chan (write_event_chan True
        (write_event_chan True (write_event_chan True (Potassium ''example'' ''Flask''))))) = 1"
proof -
  have r: "reachable (write_event_chan True (Potassium ''example'' ''Flask''))"
    by (rule reachable.written [OF reachable.created])
  have c: "event_chan (write_event_chan True (Potassium ''example'' ''Flask'')) = [True]"
    by (simp add: event_chan_write Potassium_def)
  show ?thesis
    using event_chan_at_most_one [OF r, of True True] r c by (simp add: event_chan_write)
qed

section \<open>The registry\<close>

lemma endpoints_example_predict:
  "endpoints (example_app be) ''/predict'' = Some \<lparr>type = ''handler'', func = handler_wrapper predict\<rparr>"
  by (simp add: example_app_def handler_def background_def Potassium_def)

text \<open>
  Claim C3, amended. Registering an endpoint under a route that is already registered
  does not fail: the dictionary store replaces the earlier endpoint by the new one (the
  last registration wins), every other route keeps its endpoint, and the set of
  registered routes stays the same.
\<close>

theorem registration_replaces:
  assumes "endpoints s route = Some old"
  shows "endpoints (handler route f s) route =
       Some \<lparr>type = ''handler'', func = handler_wrapper f\<rparr>
     \<and> endpoints (background route g s) route =
       Some \<lparr>type = ''background'', func = background_wrapper g\<rparr>
     \<and> dom (endpoints (handler route f s)) = dom (endpoints s)
     \<and> dom (endpoints (background route g s)) = dom (endpoints s)
     \<and> (\<forall>route'. route' \<noteq> route \<longrightarrow>
          endpoints (handler route f s) route' = endpoints s route'
        \<and> endpoints (background route g s) route' = endpoints s route')"
  using assms by (auto simp: handler_def background_def)

theorem registration_replaces_witness:
  "endpoints (example_app ''Flask'') ''/predict'' =
     Some \<lparr>type = ''handler'', func = handler_wrapper predict\<rparr>
   \<and> endpoints (handler ''/predict'' listing (example_app ''Flask'')) ''/predict'' =
       Some \<lparr>type = ''handler'', func = handler_wrapper listing\<rparr>
   \<and> endpoints (background ''/predict'' train (example_app ''Flask'')) ''/predict'' =
       Some \<lparr>type = ''background'', func = background_wrapper train\<rparr>
   \<and> dom (endpoints (background ''/predict'' train (example_app ''Flask''))) =
       dom (endpoints (example_app ''Flask''))
   \<and> endpoints (background ''/predict'' train (example_app ''Flask'')) ''/train'' =
       endpoints (example_app ''Flask'') ''/train''"
  using registration_replaces [OF endpoints_example_predict, where f = listing and g = train,
      of "''Flask''"]
    endpoints_example_predict [of "''Flask''"]
  by simp

text \<open>
  Claim C3 as stated fails: \<open>/predict\<close> is registered as a blocking endpoint; registering
  a background endpoint under \<open>/predict\<close> returns normally and the route then leads to
  the background endpoint.
\<close>

theorem registration_replaces_counterexample:
  "map_option type (endpoints (example_app ''Flask'') ''/predict'') = Some ''handler''
   \<and> map_option type
        (endpoints (background ''/predict'' train (example_app ''Flask'')) ''/predict'') =
       Some ''background''
   \<and> endpoints (background ''/predict'' train (example_app ''Flask'')) ''/predict'' \<noteq>
       endpoints (example_app ''Flask'') ''/predict''"
  by (simp add: endpoints_example_predict background_def)

section \<open>The gate, path by path\<close>

lemma dispatch_route:
  "endpoints s (route_of r s) = Some endpoint \<Longrightarrow>
   dispatch r s =
     handle_generic (route_of r s) endpoint
       (if backend s = ''FastAPI'' then Body (w_body r) else FlaskRequest (w_json r)) s"
  by (auto simp: dispatch_def flask_handle_def fastapi_handle_def route_of_def Let_def)

lemma dispatch_no_route:
  "endpoints s (route_of r s) = None \<Longrightarrow> dispatch r s = (Inl (HTTPException 404), s)"
  by (auto simp: dispatch_def flask_handle_def fastapi_handle_def route_of_def Let_def)

lemma flask_context_backend [simp]:
  "flask_context (if backend s = ''FastAPI'' then Body b else FlaskRequest o') =
     (backend s \<noteq> ''FastAPI'')"
  by simp

lemma req_json_backend:
  "req_json (if backend s = ''FastAPI'' then Body (w_body r) else FlaskRequest (w_json r)) s =
     (request_json r s, if backend s = ''FastAPI'' then s else log GetJson s)"
  by (simp add: req_json_def request_json_def)

text \<open>
  The lock is held: the constructor call of line 109 raises under either backend, outside
  any \<open>try\<close>.
\<close>

lemma handle_generic_busy:
  "lock s \<Longrightarrow>
   handle_generic route endpoint
       (if backend s = ''FastAPI'' then Body b else FlaskRequest o') s =
     (Inl (if backend s = ''FastAPI''
           then PyExc True ''RuntimeError'' ''Working outside of application context.''
           else PyExc True ''TypeError'' ''missing 1 required positional argument: content''),
      s)"
  by (simp add: handle_generic_def is_working_def JSONResponse_def make_response_def)

lemma with_lock_eq:
  "with_lock body s =
     (fst (body (log LockAcquired (s\<lparr>lock := True\<rparr>))),
      log LockReleased (snd (body (log LockAcquired (s\<lparr>lock := True\<rparr>)))\<lparr>lock := False\<rparr>))"
  by (simp add: with_lock_def Let_def split_beta)

text \<open>
  The \<open>except:\<close> clause: under Flask it returns a starlette response, under FastAPI
  the call of \<open>make_response\<close> raises.
\<close>

lemma except_branch_eq:
  "except_branch endpoint (if backend s = ''FastAPI'' then Body b else FlaskRequest o') e s =
     (if backend s = ''FastAPI''
      then Inl (PyExc True ''RuntimeError'' ''Working outside of application context.'')
      else Inr \<lparr>cls = StarletteJSONResponse, content = Some (PyStr (format_exc e)),
                status_code = 500, headers = [(''X-Endpoint-Type'', type endpoint)]\<rparr>,
      log (Printed (format_exc e)) s)"
  by (simp add: except_branch_def Let_def JSONResponse_def make_response_def set_header_def)

lemma try_branch_raises:
  "func endpoint (ctx s) req = Inl e \<Longrightarrow>
   try_branch endpoint req fr s = except_branch endpoint fr e (log (Invoked (type endpoint)) s)"
  by (simp add: try_branch_def Let_def)

lemma try_branch_returns:
  "func endpoint (ctx s) req = Inr (PyResponse st (PyDict d)) \<Longrightarrow>
   json_encodable (PyDict d) \<Longrightarrow>
   try_branch endpoint req (if backend s = ''FastAPI'' then Body b else FlaskRequest o') s =
     (Inr \<lparr>cls = (if backend s = ''FastAPI'' then StarletteJSONResponse else FlaskResponse),
           content = Some (PyDict d), status_code = st,
           headers = [(''X-Endpoint-Type'', type endpoint)]\<rparr>,
      log (Invoked (type endpoint)) s)"
  by (simp add: try_branch_def Let_def JSONResponse_def make_response_def set_header_def)

lemma try_branch_refused:
  "func endpoint (ctx s) req = Inr (PyResponse st (PyDict d)) \<Longrightarrow>
   \<not> json_encodable (PyDict d) \<Longrightarrow>
   try_branch endpoint req (if backend s = ''FastAPI'' then Body b else FlaskRequest o') s =
     except_branch endpoint (if backend s = ''FastAPI'' then Body b else FlaskRequest o')
       (PyExc True ''TypeError'' ''Object is not JSON serializable'')
       (log (Invoked (type endpoint)) s)"
  by (simp add: try_branch_def Let_def JSONResponse_def make_response_def)

lemma handle_generic_handler:
  "\<not> lock s \<Longrightarrow> type endpoint = ''handler'' \<Longrightarrow> req_json fr s = (Inr j, s1) \<Longrightarrow>
   handle_generic route endpoint fr s =
     (case fst (with_lock (try_branch endpoint \<lparr>json = j\<rparr> fr) s1) of
        Inl e \<Rightarrow> Inl e
      | Inr res \<Rightarrow> Inr (Some res),
      snd (with_lock (try_branch endpoint \<lparr>json = j\<rparr> fr) s1))"
  by (simp add: handle_generic_def is_working_def Let_def split_beta)

text \<open>A blocking call whose wrapped function raises \<open>e\<close>.\<close>

lemma dispatch_handler_raises:
  assumes reg: "endpoints s (route_of r s) = Some endpoint"
    and ty: "type endpoint = ''handler''"
    and free: "\<not> lock s"
    and body: "request_json r s = Inr j"
    and raises: "func endpoint (ctx s) \<lparr>json = j\<rparr> = Inl e"
  shows "dispatch r s =
     (if backend s = ''FastAPI''
      then Inl (PyExc True ''RuntimeError'' ''Working outside of application context.'')
      else Inr (Some \<lparr>cls = StarletteJSONResponse, content = Some (PyStr (format_exc e)),
                      status_code = 500, headers = [(''X-Endpoint-Type'', ''handler'')]\<rparr>),
      s\<lparr>trace := trace s @ (if backend s = ''FastAPI'' then [] else [GetJson]) @
            [LockAcquired, Invoked ''handler'', Printed (format_exc e), LockReleased],
        lock := False\<rparr>)"
proof -
  let ?fr = "if backend s = ''FastAPI'' then Body (w_body r) else FlaskRequest (w_json r)"
  let ?s1 = "if backend s = ''FastAPI'' then s else log GetJson s"
  let ?s2 = "log LockAcquired (?s1\<lparr>lock := True\<rparr>)"
  let ?s3 = "log (Invoked (type endpoint)) ?s2"
  have rj: "req_json ?fr s = (Inr j, ?s1)"
    using req_json_backend [of s r] body by simp
  have call: "func endpoint (ctx ?s2) \<lparr>json = j\<rparr> = Inl e"
    using raises by simp
  have be: "backend ?s3 = backend s"
    by simp
  have ex: "except_branch endpoint ?fr e ?s3 =
     (if backend s = ''FastAPI''
      then Inl (PyExc True ''RuntimeError'' ''Working outside of application context.'')
      else Inr \<lparr>cls = StarletteJSONResponse, content = Some (PyStr (format_exc e)),
                status_code = 500, headers = [(''X-Endpoint-Type'', type endpoint)]\<rparr>,
      log (Printed (format_exc e)) ?s3)"
    using except_branch_eq [of endpoint ?s3 "w_body r" "w_json r" e] unfolding be .
  show ?thesis
    unfolding dispatch_route [OF reg] handle_generic_handler [OF free ty rj]
      with_lock_eq try_branch_raises [OF call] ex
    by (simp add: ty) (simp add: log_def)
qed

text \<open>A blocking call whose wrapped function returns a \<open>Response\<close> with a dictionary.\<close>

lemma dispatch_handler_returns:
  assumes reg: "endpoints s (route_of r s) = Some endpoint"
    and ty: "type endpoint = ''handler''"
    and free: "\<not> lock s"
    and body: "request_json r s = Inr j"
    and returns: "func endpoint (ctx s) \<lparr>json = j\<rparr> = Inr (PyResponse st (PyDict d))"
    and enc: "json_encodable (PyDict d)"
  shows "dispatch r s =
     (Inr (Some \<lparr>cls = (if backend s = ''FastAPI'' then StarletteJSONResponse else FlaskResponse),
                 content = Some (PyDict d), status_code = st,
                 headers = [(''X-Endpoint-Type'', ''handler'')]\<rparr>),
      s\<lparr>trace := trace s @ (if backend s = ''FastAPI'' then [] else [GetJson]) @
            [LockAcquired, Invoked ''handler'', LockReleased],
        lock := False\<rparr>)"
proof -
  let ?fr = "if backend s = ''FastAPI'' then Body (w_body r) else FlaskRequest (w_json r)"
  let ?s1 = "if backend s = ''FastAPI'' then s else log GetJson s"
  let ?s2 = "log LockAcquired (?s1\<lparr>lock := True\<rparr>)"
  have rj: "req_json ?fr s = (Inr j, ?s1)"
    using req_json_backend [of s r] body by simp
  have call: "func endpoint (ctx ?s2) \<lparr>json = j\<rparr> = Inr (PyResponse st (PyDict d))"
    using returns by simp
  have be: "backend ?s2 = backend s"
    by simp
  have tr: "try_branch endpoint \<lparr>json = j\<rparr> ?fr ?s2 =
     (Inr \<lparr>cls = (if backend s = ''FastAPI'' then StarletteJSONResponse else FlaskResponse),
           content = Some (PyDict d), status_code = st,
           headers = [(''X-Endpoint-Type'', type endpoint)]\<rparr>,
      log (Invoked (type endpoint)) ?s2)"
    using try_branch_returns [OF call enc, of "w_body r" "w_json r"] unfolding be .
  show ?thesis
    unfolding dispatch_route [OF reg] handle_generic_handler [OF free ty rj] with_lock_eq tr
    by (simp add: ty) (simp add: log_def)
qed

text \<open>
  A blocking call whose wrapped function returns a \<open>Response\<close> with a dictionary that
  the JSON encoder refuses: the constructor call of line 120 raises inside the \<open>try\<close>.
\<close>

lemma dispatch_handler_refused:
  assumes reg: "endpoints s (route_of r s) = Some endpoint"
    and ty: "type endpoint = ''handler''"
    and free: "\<not> lock s"
    and body: "request_json r s = Inr j"
    and returns: "func endpoint (ctx s) \<lparr>json = j\<rparr> = Inr (PyResponse st (PyDict d))"
    and enc: "\<not> json_encodable (PyDict d)"
  shows "fst (dispatch r s) =
     (if backend s = ''FastAPI''
      then Inl (PyExc True ''RuntimeError'' ''Working outside of application context.'')
      else Inr (Some \<lparr>cls = StarletteJSONResponse,
                      content = Some (PyStr ''TypeError: Object is not JSON serializable''),
                      status_code = 500, headers = [(''X-Endpoint-Type'', ''handler'')]\<rparr>))"
proof -
  let ?fr = "if backend s = ''FastAPI'' then Body (w_body r) else FlaskRequest (w_json r)"
  let ?s1 = "if backend s = ''FastAPI'' then s else log GetJson s"
  let ?s2 = "log LockAcquired (?s1\<lparr>lock := True\<rparr>)"
  let ?s3 = "log (Invoked (type endpoint)) ?s2"
  let ?e = "PyExc True ''TypeError'' ''Object is not JSON serializable''"
  have rj: "req_json ?fr s = (Inr j, ?s1)"
    using req_json_backend [of s r] body by simp
  have call: "func endpoint (ctx ?s2) \<lparr>json = j\<rparr> = Inr (PyResponse st (PyDict d))"
    using returns by simp
  have be: "backend ?s2 = backend s" "backend ?s3 = backend s"
    by simp_all
  have tr: "try_branch endpoint \<lparr>json = j\<rparr> ?fr ?s2 = except_branch endpoint ?fr ?e ?s3"
    using try_branch_refused [OF call enc, of "w_body r" "w_json r"] unfolding be .
  have ex: "except_branch endpoint ?fr ?e ?s3 =
     (if backend s = ''FastAPI''
      then Inl (PyExc True ''RuntimeError'' ''Working outside of application context.'')
      else Inr \<lparr>cls = StarletteJSONResponse, content = Some (PyStr (format_exc ?e)),
                status_code = 500, headers = [(''X-Endpoint-Type'', type endpoint)]\<rparr>,
      log (Printed (format_exc ?e)) ?s3)"
    using except_branch_eq [of endpoint ?s3 "w_body r" "w_json r" ?e] unfolding be .
  show ?thesis
    unfolding dispatch_route [OF reg] handle_generic_handler [OF free ty rj] with_lock_eq tr ex
    by (simp add: ty)
qed

lemma handle_generic_background:
  "\<not> lock s \<Longrightarrow> type endpoint = ''background'' \<Longrightarrow> req_json fr s = (Inr j, s1) \<Longrightarrow>
   handle_generic route endpoint fr s =
     (case make_response (flask_context fr) (Some (PyDict [(''started'', PyBool True)])) of
        Inl e \<Rightarrow> Inl e
      | Inr res \<Rightarrow> Inr (Some (set_header ''X-Endpoint-Type'' ''background'' res)),
      log ThreadStarted
        (s1\<lparr>threads := threads s1 @ [\<lparr>t_endpoint = endpoint, t_req = \<lparr>json = j\<rparr>, t_pc = AtWith\<rparr>]\<rparr>))"
  by (simp add: handle_generic_def is_working_def Let_def split: sum.splits)

text \<open>
  A call of a background endpoint that finds the lock free: the thread is started, then
  line 151 builds the response under Flask and raises under FastAPI.
\<close>

lemma dispatch_background:
  assumes reg: "endpoints s (route_of r s) = Some endpoint"
    and ty: "type endpoint = ''background''"
    and free: "\<not> lock s"
    and body: "request_json r s = Inr j"
  shows "dispatch r s =
     (if backend s = ''FastAPI''
      then Inl (PyExc True ''RuntimeError'' ''Working outside of application context.'')
      else Inr (Some \<lparr>cls = FlaskResponse,
                      content = Some (PyDict [(''started'', PyBool True)]),
                      status_code = 200, headers = [(''X-Endpoint-Type'', ''background'')]\<rparr>),
      s\<lparr>threads := threads s @ [\<lparr>t_endpoint = endpoint, t_req = \<lparr>json = j\<rparr>, t_pc = AtWith\<rparr>],
        trace := trace s @ (if backend s = ''FastAPI'' then [] else [GetJson]) @
            [ThreadStarted]\<rparr>)"
proof -
  let ?fr = "if backend s = ''FastAPI'' then Body (w_body r) else FlaskRequest (w_json r)"
  let ?s1 = "if backend s = ''FastAPI'' then s else log GetJson s"
  have rj: "req_json ?fr s = (Inr j, ?s1)"
    using req_json_backend [of s r] body by simp
  show ?thesis
    unfolding dispatch_route [OF reg] handle_generic_background [OF free ty rj]
    by (simp add: make_response_def set_header_def) (simp add: log_def)
qed

section \<open>The example applications\<close>

lemma example_app_simps [simp]:
  "backend (example_app be) = be" "\<not> lock (example_app be)" "threads (example_app be) = []"
  "trace (example_app be) = []" "ctx (example_app be) = PyDict []"
  "event_chan (example_app be) = []"
  by (simp_all add: example_app_def handler_def background_def Potassium_def)

lemma endpoints_example:
  "endpoints (example_app be) ''/fail'' =
     Some \<lparr>type = ''handler'', func = handler_wrapper failing\<rparr>"
  "endpoints (example_app be) ''/list'' =
     Some \<lparr>type = ''handler'', func = handler_wrapper listing\<rparr>"
  "endpoints (example_app be) ''/train'' =
     Some \<lparr>type = ''background'', func = background_wrapper train\<rparr>"
  "endpoints (example_app be) ''/exit'' =
     Some \<lparr>type = ''background'', func = background_wrapper exiting\<rparr>"
  "endpoints (example_app be) ''/missing'' = None"
  "endpoints (example_app be) ''/'' = None"
  by (simp_all add: example_app_def handler_def background_def Potassium_def)

lemma blocking_app_simps [simp]:
  "backend (blocking_app be f) = be" "\<not> lock (blocking_app be f)"
  "threads (blocking_app be f) = []" "trace (blocking_app be f) = []"
  "ctx (blocking_app be f) = PyDict []"
  "endpoints (blocking_app be f) ''/'' = Some \<lparr>type = ''handler'', func = handler_wrapper f\<rparr>"
  by (simp_all add: blocking_app_def handler_def Potassium_def)

lemma background_app_simps [simp]:
  "backend (background_app be f) = be" "\<not> lock (background_app be f)"
  "threads (background_app be f) = []" "trace (background_app be f) = []"
  "ctx (background_app be f) = PyDict []" "event_chan (background_app be f) = []"
  "endpoints (background_app be f) ''/'' =
     Some \<lparr>type = ''background'', func = background_wrapper f\<rparr>"
  by (simp_all add: background_app_def background_def Potassium_def)

lemma post_simps [simp]:
  "w_path (post p) = p" "w_body (post p) = ''{}''" "w_json (post p) = Inr (PyDict [])"
  by (simp_all add: post_def)

lemma after_train:
  "after (post ''train'') (example_app ''Flask'') =
     example_app ''Flask''
       \<lparr>threads := [\<lparr>t_endpoint = \<lparr>type = ''background'', func = background_wrapper train\<rparr>,
                      t_req = \<lparr>json = PyDict []\<rparr>, t_pc = AtWith\<rparr>],
         trace := [GetJson, ThreadStarted]\<rparr>"
  unfolding after_def
  by (subst dispatch_background [where j = "PyDict []"])
     (simp_all add: route_of_def request_json_def endpoints_example)

lemma after_root:
  "after (post '''') (background_app ''FastAPI'' f) =
     background_app ''FastAPI'' f
       \<lparr>threads := [\<lparr>t_endpoint = \<lparr>type = ''background'', func = background_wrapper f\<rparr>,
                      t_req = \<lparr>json = PyBytes ''{}''\<rparr>, t_pc = AtWith\<rparr>],
         trace := [ThreadStarted]\<rparr>"
  unfolding after_def
  by (subst dispatch_background [where j = "PyBytes ''{}''"])
     (simp_all add: route_of_def request_json_def)

lemma busy_app_eq:
  "busy_app =
     example_app ''Flask''
       \<lparr>threads := [\<lparr>t_endpoint = \<lparr>type = ''background'', func = background_wrapper train\<rparr>,
                      t_req = \<lparr>json = PyDict []\<rparr>, t_pc = InTry\<rparr>],
         trace := [GetJson, ThreadStarted, LockAcquired],
         lock := True\<rparr>"
  by (simp add: busy_app_def after_train first_thread_stepped_def thread_step_def
      task_step_def log_def)

lemma busy_root_eq:
  "busy_root =
     background_app ''FastAPI'' train
       \<lparr>threads := [\<lparr>t_endpoint = \<lparr>type = ''background'', func = background_wrapper train\<rparr>,
                      t_req = \<lparr>json = PyBytes ''{}''\<rparr>, t_pc = InTry\<rparr>],
         trace := [ThreadStarted, LockAcquired],
         lock := True\<rparr>"
  by (simp add: busy_root_def after_root first_thread_stepped_def thread_step_def
      task_step_def log_def)

section \<open>The busy path\<close>

text \<open>
  Claim C1 does not hold of the code. A request to a registered route that arrives while
  the lock is held is not answered with status 423 and a marker: the constructor call of
  line 109 raises under either backend, the exception leaves \<open>_handle_generic\<close>, and the
  library answers with its error page, status 500, without \<open>X-Endpoint-Type\<close>. Under
  Flask, with a background task holding the lock and a request to the blocking route
  \<open>/predict\<close>, \<open>JSONResponse()\<close> lacks its content; under FastAPI, with a request to
  \<open>/\<close>, \<open>make_response()\<close> has no application context. The state is left as it was.
\<close>

theorem busy_dispatch_raises:
  "lock busy_app
   \<and> endpoints busy_app ''/predict'' = Some \<lparr>type = ''handler'', func = handler_wrapper predict\<rparr>
   \<and> dispatch (post ''predict'') busy_app =
       (Inl (PyExc True ''TypeError'' ''missing 1 required positional argument: content''),
        busy_app)
   \<and> wire_response ''Flask'' (fst (dispatch (post ''predict'') busy_app)) =
       \<lparr>cls = ErrorPage, content = None, status_code = 500, headers = []\<rparr>
   \<and> lock busy_root
   \<and> endpoints busy_root ''/'' = Some \<lparr>type = ''background'', func = background_wrapper train\<rparr>
   \<and> dispatch (post '''') busy_root =
       (Inl (PyExc True ''RuntimeError'' ''Working outside of application context.''),
        busy_root)
   \<and> wire_response ''FastAPI'' (fst (dispatch (post '''') busy_root)) =
       \<lparr>cls = ErrorPage, content = None, status_code = 500, headers = []\<rparr>"
proof -
  have held: "lock busy_app" "lock busy_root"
    by (simp_all add: busy_app_eq busy_root_eq)
  have be: "backend busy_app = ''Flask''" "backend busy_root = ''FastAPI''"
    by (simp_all add: busy_app_eq busy_root_eq)
  have reg: "endpoints busy_app (route_of (post ''predict'') busy_app) =
      Some \<lparr>type = ''handler'', func = handler_wrapper predict\<rparr>"
    by (simp add: route_of_def be) (simp add: busy_app_eq endpoints_example_predict)
  have reg': "endpoints busy_root (route_of (post '''') busy_root) =
      Some \<lparr>type = ''background'', func = background_wrapper train\<rparr>"
    by (simp add: route_of_def be) (simp add: busy_root_eq)
  have d: "dispatch (post ''predict'') busy_app =
       (Inl (PyExc True ''TypeError'' ''missing 1 required positional argument: content''),
        busy_app)"
    unfolding dispatch_route [OF reg] handle_generic_busy [OF held(1)] by (simp add: be)
  have d': "dispatch (post '''') busy_root =
       (Inl (PyExc True ''RuntimeError'' ''Working outside of application context.''),
        busy_root)"
    unfolding dispatch_route [OF reg'] handle_generic_busy [OF held(2)] by (simp add: be)
  show ?thesis
    using held reg reg'
    by (simp add: d d' library_response_def route_of_def be)
qed

section \<open>The background path\<close>

text \<open>
  Claim C7 does not hold of the code under FastAPI. A request to the background endpoint
  at \<open>/\<close> that finds the lock free starts the thread; then line 151 calls
  \<open>flask.make_response\<close>, whatever the backend, which raises for want of an application
  context. The caller is sent the library's error page, status 500, in place of status
  200 with \<open>{"started": true}\<close>.
\<close>

theorem background_start_raises:
  "endpoints (background_app ''FastAPI'' train) ''/'' =
     Some \<lparr>type = ''background'', func = background_wrapper train\<rparr>
   \<and> \<not> lock (background_app ''FastAPI'' train)
   \<and> dispatch (post '''') (background_app ''FastAPI'' train) =
       (Inl (PyExc True ''RuntimeError'' ''Working outside of application context.''),
        background_app ''FastAPI'' train
          \<lparr>threads := [\<lparr>t_endpoint = \<lparr>type = ''background'', func = background_wrapper train\<rparr>,
                         t_req = \<lparr>json = PyBytes ''{}''\<rparr>, t_pc = AtWith\<rparr>],
            trace := [ThreadStarted]\<rparr>)
   \<and> wire_response ''FastAPI'' (fst (dispatch (post '''') (background_app ''FastAPI'' train))) =
       \<lparr>cls = ErrorPage, content = None, status_code = 500, headers = []\<rparr>"
proof -
  have d: "dispatch (post '''') (background_app ''FastAPI'' train) =
       (Inl (PyExc True ''RuntimeError'' ''Working outside of application context.''),
        background_app ''FastAPI'' train
          \<lparr>threads := [\<lparr>t_endpoint = \<lparr>type = ''background'', func = background_wrapper train\<rparr>,
                         t_req = \<lparr>json = PyBytes ''{}''\<rparr>, t_pc = AtWith\<rparr>],
            trace := [ThreadStarted]\<rparr>)"
    by (subst dispatch_background [where j = "PyBytes ''{}''"])
       (simp_all add: route_of_def request_json_def)
  show ?thesis
    by (simp add: d library_response_def)
qed

section \<open>Runs of the background task\<close>

lemma puts_simps [simp]:
  "puts [] = 0"
  "puts (ev # evs) = (if is_Put ev then 1 else 0) + puts evs"
  "puts (evs @ evs') = puts evs + puts evs'"
  by (simp_all add: puts_def)

lemma write_event_chan_simps [simp]:
  "lock (write_event_chan item s) = lock s"
  "ctx (write_event_chan item s) = ctx s"
  "trace (write_event_chan item s) = trace s @ [Put item]"
  by (simp_all add: write_event_chan_def log_def split: sum.splits queue_error.splits)

lemma run_task_ended [simp]: "ended (t_pc t) \<Longrightarrow> run_task n t s = (t, s)"
  by (cases n; cases "t_pc t") (simp_all add: task_step_def)

text \<open>The user function returns: four steps, the last one the write of line 145.\<close>

lemma run_task_returns:
  assumes "\<not> lock s" and "t_pc t = AtWith"
    and "func (t_endpoint t) (ctx s) (t_req t) = Inr v"
  shows "run_task (Suc (Suc (Suc (Suc n)))) t s =
     (t\<lparr>t_pc := Done\<rparr>,
      write_event_chan True
        (log LockReleased
           (log (Invoked (type (t_endpoint t))) (log LockAcquired (s\<lparr>lock := True\<rparr>))
            \<lparr>lock := False\<rparr>)))"
  using assms by (simp add: task_step_def Let_def)

text \<open>The user function raises an exception that \<open>except Exception\<close> lets pass.\<close>

lemma run_task_raises_other:
  assumes "\<not> lock s" and "t_pc t = AtWith"
    and "func (t_endpoint t) (ctx s) (t_req t) = Inl e" and "\<not> is_Exception e"
  shows "run_task (Suc (Suc (Suc n))) t s =
     (t\<lparr>t_pc := Died e\<rparr>,
      log LockReleased
        (log (Invoked (type (t_endpoint t))) (log LockAcquired (s\<lparr>lock := True\<rparr>))
         \<lparr>lock := False\<rparr>))"
  using assms by (simp add: task_step_def Let_def)

lemma exit_started_eq:
  "exit_started =
     example_app ''Flask''
       \<lparr>threads := [\<lparr>t_endpoint = \<lparr>type = ''background'', func = background_wrapper exiting\<rparr>,
                      t_req = \<lparr>json = PyDict []\<rparr>, t_pc = AtWith\<rparr>],
         trace := [GetJson, ThreadStarted]\<rparr>"
  unfolding exit_started_def after_def
  by (subst dispatch_background [where j = "PyDict []"])
     (simp_all add: route_of_def request_json_def endpoints_example)

text \<open>
  Claim C2 does not hold of the code. The user function of the background endpoint
  \<open>/exit\<close> calls \<open>sys.exit(0)\<close>, which raises \<open>SystemExit\<close>. \<open>except Exception\<close>
  (line 141) does not catch it, so neither the write of line 143 nor that of line 145 is
  reached: the thread ends, the lock released, without any call of \<open>Queue.put\<close>, and the
  event channel stays empty.
\<close>

theorem exit_task_never_puts:
  "\<not> lock exit_started
   \<and> t_pc (hd (threads exit_started)) = AtWith
   \<and> func (t_endpoint (hd (threads exit_started))) (ctx exit_started)
        (t_req (hd (threads exit_started))) = Inl (PyExc False ''SystemExit'' ''0'')
   \<and> t_pc (fst (run_task 4 (hd (threads exit_started)) exit_started)) =
        Died (PyExc False ''SystemExit'' ''0'')
   \<and> task_step (fst (run_task 4 (hd (threads exit_started)) exit_started))
        (snd (run_task 4 (hd (threads exit_started)) exit_started)) = None
   \<and> trace (snd (run_task 4 (hd (threads exit_started)) exit_started)) =
        [GetJson, ThreadStarted, LockAcquired, Invoked ''background'', LockReleased]
   \<and> puts (trace (snd (run_task 4 (hd (threads exit_started)) exit_started))) = 0
   \<and> event_chan (snd (run_task 4 (hd (threads exit_started)) exit_started)) = []"
proof -
  have free: "\<not> lock exit_started"
    by (simp add: exit_started_eq)
  have pc: "t_pc (hd (threads exit_started)) = AtWith"
    by (simp add: exit_started_eq)
  have raises: "func (t_endpoint (hd (threads exit_started))) (ctx exit_started)
      (t_req (hd (threads exit_started))) = Inl (PyExc False ''SystemExit'' ''0'')"
    by (simp add: exit_started_eq background_wrapper_def exiting_def)
  have other: "\<not> is_Exception (PyExc False ''SystemExit'' ''0'')"
    by simp
  have four: "(4::nat) = Suc (Suc (Suc (Suc 0)))"
    by simp
  have run: "run_task 4 (hd (threads exit_started)) exit_started =
     (hd (threads exit_started)\<lparr>t_pc := Died (PyExc False ''SystemExit'' ''0'')\<rparr>,
      log LockReleased
        (log (Invoked (type (t_endpoint (hd (threads exit_started)))))
           (log LockAcquired (exit_started\<lparr>lock := True\<rparr>))
         \<lparr>lock := False\<rparr>))"
    unfolding four by (rule run_task_raises_other [OF free pc raises other])
  show ?thesis
    unfolding run using free pc raises
    by (simp add: task_step_def) (simp add: exit_started_eq)
qed

text \<open>
  Claim C10 does not hold of the code under FastAPI. The user function of the background
  endpoint at \<open>/\<close> returns a \<open>Response\<close> whose \<open>json\<close> is a list. Its value is indeed
  not looked at: the thread, run from the state that \<open>dispatch\<close> leaves, ends normally
  after one call of \<open>Queue.put\<close>, and nothing is printed. But the caller does not receive
  the started acknowledgment: line 151 raises after the thread was started, and the
  caller is sent the library's error page, status 500.
\<close>

theorem background_caller_gets_500:
  "endpoints (background_app ''FastAPI'' listing) ''/'' =
     Some \<lparr>type = ''background'', func = background_wrapper listing\<rparr>
   \<and> \<not> lock (background_app ''FastAPI'' listing)
   \<and> background_wrapper listing (ctx (background_app ''FastAPI'' listing))
        \<lparr>json = PyBytes ''{}''\<rparr> = Inr (PyResponse 200 (PyList []))
   \<and> fst (dispatch (post '''') (background_app ''FastAPI'' listing)) =
       Inl (PyExc True ''RuntimeError'' ''Working outside of application context.'')
   \<and> wire_response ''FastAPI'' (fst (dispatch (post '''') (background_app ''FastAPI'' listing))) =
       \<lparr>cls = ErrorPage, content = None, status_code = 500, headers = []\<rparr>
   \<and> t_pc (fst (run_task 4
        (hd (threads (after (post '''') (background_app ''FastAPI'' listing))))
        (after (post '''') (background_app ''FastAPI'' listing)))) = Done
   \<and> trace (snd (run_task 4
        (hd (threads (after (post '''') (background_app ''FastAPI'' listing))))
        (after (post '''') (background_app ''FastAPI'' listing)))) =
       [ThreadStarted, LockAcquired, Invoked ''background'', LockReleased, Put True]
   \<and> event_chan (snd (run_task 4
        (hd (threads (after (post '''') (background_app ''FastAPI'' listing))))
        (after (post '''') (background_app ''FastAPI'' listing)))) = [True]"
proof -
  let ?s = "after (post '''') (background_app ''FastAPI'' listing)"
  have d: "fst (dispatch (post '''') (background_app ''FastAPI'' listing)) =
       Inl (PyExc True ''RuntimeError'' ''Working outside of application context.'')"
    by (subst dispatch_background [where j = "PyBytes ''{}''"
          and endpoint = "\<lparr>type = ''background'', func = background_wrapper listing\<rparr>"])
       (simp_all add: route_of_def request_json_def)
  have free: "\<not> lock ?s"
    by (simp add: after_root)
  have pc: "t_pc (hd (threads ?s)) = AtWith"
    by (simp add: after_root)
  have returns: "func (t_endpoint (hd (threads ?s))) (ctx ?s) (t_req (hd (threads ?s))) =
      Inr (PyResponse 200 (PyList []))"
    by (simp add: after_root background_wrapper_def listing_def)
  have four: "(4::nat) = Suc (Suc (Suc (Suc 0)))"
    by simp
  have run: "run_task 4 (hd (threads ?s)) ?s =
     (hd (threads ?s)\<lparr>t_pc := Done\<rparr>,
      write_event_chan True
        (log LockReleased
           (log (Invoked (type (t_endpoint (hd (threads ?s)))))
              (log LockAcquired (?s\<lparr>lock := True\<rparr>))
            \<lparr>lock := False\<rparr>)))"
    unfolding four by (rule run_task_returns [OF free pc returns])
  show ?thesis
    unfolding run
    by (simp add: d library_response_def background_wrapper_def listing_def)
       (simp add: after_root event_chan_write)
qed

section \<open>The blocking path\<close>

text \<open>
  Claim C5 does not hold of the code. Under FastAPI the user function of the blocking
  endpoint at \<open>/\<close> raises a \<open>ValueError\<close>; the \<open>except:\<close> clause catches it, and then
  its own constructor call of line 127, \<open>flask.make_response\<close>, raises for want of an
  application context. That exception leaves \<open>_handle_generic\<close>: the failure is not
  absorbed, and the caller is sent the library's error page, status 500, without the
  diagnostic. The lock is released. Under Flask, for the blocking endpoint \<open>/fail\<close>,
  line 127 builds a starlette response with status 500 and the diagnostic; Flask cannot
  send it and answers with its error page, again without the diagnostic.
\<close>

theorem blocking_failure_escapes:
  "endpoints (blocking_app ''FastAPI'' failing) ''/'' =
     Some \<lparr>type = ''handler'', func = handler_wrapper failing\<rparr>
   \<and> \<not> lock (blocking_app ''FastAPI'' failing)
   \<and> failing (ctx (blocking_app ''FastAPI'' failing)) \<lparr>json = PyBytes ''{}''\<rparr> =
       Inl (PyExc True ''ValueError'' ''bad input'')
   \<and> dispatch (post '''') (blocking_app ''FastAPI'' failing) =
       (Inl (PyExc True ''RuntimeError'' ''Working outside of application context.''),
        blocking_app ''FastAPI'' failing
          \<lparr>trace := [LockAcquired, Invoked ''handler'', Printed ''ValueError: bad input'',
                      LockReleased],
            lock := False\<rparr>)
   \<and> wire_response ''FastAPI'' (fst (dispatch (post '''') (blocking_app ''FastAPI'' failing))) =
       \<lparr>cls = ErrorPage, content = None, status_code = 500, headers = []\<rparr>
   \<and> fst (dispatch (post ''fail'') (example_app ''Flask'')) =
       Inr (Some \<lparr>cls = StarletteJSONResponse,
                  content = Some (PyStr ''ValueError: bad input''), status_code = 500,
                  headers = [(''X-Endpoint-Type'', ''handler'')]\<rparr>)
   \<and> wire_response ''Flask'' (fst (dispatch (post ''fail'') (example_app ''Flask''))) =
       \<lparr>cls = ErrorPage, content = None, status_code = 500, headers = []\<rparr>"
proof -
  have d: "dispatch (post '''') (blocking_app ''FastAPI'' failing) =
       (Inl (PyExc True ''RuntimeError'' ''Working outside of application context.''),
        blocking_app ''FastAPI'' failing
          \<lparr>trace := [LockAcquired, Invoked ''handler'', Printed ''ValueError: bad input'',
                      LockReleased],
            lock := False\<rparr>)"
    by (subst dispatch_handler_raises [where j = "PyBytes ''{}''"
          and e = "PyExc True ''ValueError'' ''bad input''"
          and endpoint = "\<lparr>type = ''handler'', func = handler_wrapper failing\<rparr>"])
       (simp_all add: route_of_def request_json_def handler_wrapper_def failing_def)
  have d': "fst (dispatch (post ''fail'') (example_app ''Flask'')) =
       Inr (Some \<lparr>cls = StarletteJSONResponse,
                  content = Some (PyStr ''ValueError: bad input''), status_code = 500,
                  headers = [(''X-Endpoint-Type'', ''handler'')]\<rparr>)"
    by (subst dispatch_handler_raises [where j = "PyDict []"
          and e = "PyExc True ''ValueError'' ''bad input''"
          and endpoint = "\<lparr>type = ''handler'', func = handler_wrapper failing\<rparr>"])
       (simp_all add: route_of_def request_json_def handler_wrapper_def failing_def
          endpoints_example)
  show ?thesis
    by (simp add: d d' library_response_def sendable_def failing_def)
qed

section \<open>The contract of a blocking endpoint\<close>

text \<open>The exception that the wrapper of \<open>handler\<close> raises for a value it rejects.\<close>

lemma handler_wrapper_rejects:
  assumes "f c req = Inr out" and "\<forall>st d. out \<noteq> PyResponse st (PyDict d)"
  shows "handler_wrapper f c req =
       Inl (PyExc True ''Exception'' ''Potassium Response object not returned'')
     \<or> handler_wrapper f c req =
       Inl (PyExc True ''Exception'' ''Potassium Response object json must be a dict'')"
  using assms by (simp add: handler_wrapper_def split: pyval.splits)

lemma handler_wrapper_raising [simp]: "handler_wrapper (raising e) c req = Inl e"
  by (simp add: handler_wrapper_def raising_def)

text \<open>What is sent for a blocking call whose wrapped function raised.\<close>

lemma wire_response_raised:
  "wire_response be
     (if be = ''FastAPI''
      then Inl (PyExc True ''RuntimeError'' ''Working outside of application context.'')
      else Inr (Some \<lparr>cls = StarletteJSONResponse, content = body, status_code = 500,
                      headers = hs\<rparr>)) =
     \<lparr>cls = ErrorPage, content = None, status_code = 500, headers = []\<rparr>"
  by (simp add: library_response_def sendable_def)

text \<open>
  Claim C6. When the user function of a blocking endpoint returns a value that is not a
  \<open>Response\<close>, or a \<open>Response\<close> whose \<open>json\<close> is not a \<open>dict\<close>, the wrapper raises an
  \<open>Exception\<close> \<open>e\<close>, and what is sent to the caller has status 500. The call has the
  very result, the very trace and the very wire response of a call whose user function
  raised \<open>e\<close> itself, and it leaves the lock free.
\<close>

theorem contract_violation_is_500:
  assumes "endpoints s (route_of r s) = Some \<lparr>type = ''handler'', func = handler_wrapper f\<rparr>"
    and "\<not> lock s"
    and "request_json r s = Inr j"
    and "f (ctx s) \<lparr>json = j\<rparr> = Inr out"
    and "\<forall>st d. out \<noteq> PyResponse st (PyDict d)"
  shows "\<exists>e. handler_wrapper f (ctx s) \<lparr>json = j\<rparr> = Inl e
     \<and> is_Exception e
     \<and> status_code (wire_response (backend s) (fst (dispatch r s))) = 500
     \<and> fst (dispatch r s) =
         fst (dispatch r (s\<lparr>endpoints := (endpoints s)(route_of r s \<mapsto>
                \<lparr>type = ''handler'', func = handler_wrapper (raising e)\<rparr>)\<rparr>))
     \<and> trace (snd (dispatch r s)) =
         trace (snd (dispatch r (s\<lparr>endpoints := (endpoints s)(route_of r s \<mapsto>
                \<lparr>type = ''handler'', func = handler_wrapper (raising e)\<rparr>)\<rparr>)))
     \<and> wire_response (backend s) (fst (dispatch r s)) =
         wire_response (backend s)
           (fst (dispatch r (s\<lparr>endpoints := (endpoints s)(route_of r s \<mapsto>
                \<lparr>type = ''handler'', func = handler_wrapper (raising e)\<rparr>)\<rparr>)))
     \<and> \<not> lock (snd (dispatch r s))"
proof -
  from handler_wrapper_rejects [of f "ctx s" "\<lparr>json = j\<rparr>" out, OF assms(4,5)]
  obtain e where e: "handler_wrapper f (ctx s) \<lparr>json = j\<rparr> = Inl e" "is_Exception e"
    by auto
  let ?ep = "\<lparr>type = ''handler'', func = handler_wrapper f\<rparr>"
  let ?ep' = "\<lparr>type = ''handler'', func = handler_wrapper (raising e)\<rparr>"
  let ?s' = "s\<lparr>endpoints := (endpoints s)(route_of r s \<mapsto> ?ep')\<rparr>"
  let ?out = "if backend s = ''FastAPI''
      then Inl (PyExc True ''RuntimeError'' ''Working outside of application context.'')
      else Inr (Some \<lparr>cls = StarletteJSONResponse, content = Some (PyStr (format_exc e)),
                      status_code = 500, headers = [(''X-Endpoint-Type'', ''handler'')]\<rparr>)"
  let ?evs = "(if backend s = ''FastAPI'' then [] else [GetJson]) @
      [LockAcquired, Invoked ''handler'', Printed (format_exc e), LockReleased]"
  have 1: "dispatch r s = (?out, s\<lparr>trace := trace s @ ?evs, lock := False\<rparr>)"
    by (rule dispatch_handler_raises [OF assms(1) _ assms(2,3)]) (simp_all add: e)
  have same: "route_of r ?s' = route_of r s" "request_json r ?s' = request_json r s"
    by (simp_all add: route_of_def request_json_def)
  have 2: "dispatch r ?s' = (?out, ?s'\<lparr>trace := trace s @ ?evs, lock := False\<rparr>)"
    using dispatch_handler_raises [of ?s' r ?ep' j e]
    by (simp add: same assms(2,3))
  have w: "wire_response (backend s) ?out =
      \<lparr>cls = ErrorPage, content = None, status_code = 500, headers = []\<rparr>"
    by (rule wire_response_raised)
  show ?thesis
    using e by (intro exI [of _ e]) (simp add: 1 2 w del: wire_response.simps)
qed

theorem contract_violation_is_500_witness:
  "endpoints (example_app ''Flask'') ''/list'' =
     Some \<lparr>type = ''handler'', func = handler_wrapper listing\<rparr>
   \<and> \<not> lock (example_app ''Flask'')
   \<and> listing (ctx (example_app ''Flask'')) \<lparr>json = PyDict []\<rparr> = Inr (PyResponse 200 (PyList []))
   \<and> handler_wrapper listing (ctx (example_app ''Flask'')) \<lparr>json = PyDict []\<rparr> =
       Inl (PyExc True ''Exception'' ''Potassium Response object json must be a dict'')
   \<and> status_code (wire_response ''Flask'' (fst (dispatch (post ''list'') (example_app ''Flask'')))) =
       500
   \<and> \<not> lock (snd (dispatch (post ''list'') (example_app ''Flask'')))"
proof -
  have reg: "endpoints (example_app ''Flask'') (route_of (post ''list'') (example_app ''Flask'')) =
      Some \<lparr>type = ''handler'', func = handler_wrapper listing\<rparr>"
    by (simp add: route_of_def endpoints_example)
  have free: "\<not> lock (example_app ''Flask'')"
    by simp
  have body: "request_json (post ''list'') (example_app ''Flask'') = Inr (PyDict [])"
    by (simp add: request_json_def)
  have returns: "listing (ctx (example_app ''Flask'')) \<lparr>json = PyDict []\<rparr> =
      Inr (PyResponse 200 (PyList []))"
    by (simp add: listing_def)
  have bad: "\<forall>st d. PyResponse 200 (PyList []) \<noteq> PyResponse st (PyDict d)"
    by simp
  have w: "handler_wrapper listing (ctx (example_app ''Flask'')) \<lparr>json = PyDict []\<rparr> =
      Inl (PyExc True ''Exception'' ''Potassium Response object json must be a dict'')"
    by (simp add: handler_wrapper_def listing_def)
  from contract_violation_is_500 [OF reg free body returns bad]
  have "status_code (wire_response (backend (example_app ''Flask''))
          (fst (dispatch (post ''list'') (example_app ''Flask'')))) = 500
      \<and> \<not> lock (snd (dispatch (post ''list'') (example_app ''Flask'')))"
    by blast
  then show ?thesis
    using free returns w by (simp add: endpoints_example)
qed

text \<open>
  Claim C8, amended. When the lock is free and the user function of a blocking endpoint
  returns a \<open>Response\<close> whose \<open>json\<close> is a \<open>dict\<close> that the JSON encoder accepts, the
  response sent to the caller has the \<open>status\<close> of that \<open>Response\<close> as its status and
  its \<open>json\<close> as its body.
\<close>

theorem blocking_response_passed_on:
  assumes "endpoints s (route_of r s) = Some \<lparr>type = ''handler'', func = handler_wrapper f\<rparr>"
    and "\<not> lock s"
    and "request_json r s = Inr j"
    and "f (ctx s) \<lparr>json = j\<rparr> = Inr (PyResponse st (PyDict d))"
    and "json_encodable (PyDict d)"
  shows "wire_response (backend s) (fst (dispatch r s)) =
       \<lparr>cls = (if backend s = ''FastAPI'' then StarletteJSONResponse else FlaskResponse),
         content = Some (PyDict d), status_code = st,
         headers = [(''X-Endpoint-Type'', ''handler'')]\<rparr>
     \<and> snd (dispatch r s) =
       s\<lparr>trace := trace s @ (if backend s = ''FastAPI'' then [] else [GetJson]) @
            [LockAcquired, Invoked ''handler'', LockReleased],
         lock := False\<rparr>"
proof -
  have "dispatch r s =
     (Inr (Some \<lparr>cls = (if backend s = ''FastAPI'' then StarletteJSONResponse else FlaskResponse),
                 content = Some (PyDict d), status_code = st,
                 headers = [(''X-Endpoint-Type'', ''handler'')]\<rparr>),
      s\<lparr>trace := trace s @ (if backend s = ''FastAPI'' then [] else [GetJson]) @
            [LockAcquired, Invoked ''handler'', LockReleased],
        lock := False\<rparr>)"
    by (rule dispatch_handler_returns [OF assms(1) _ assms(2,3) _ assms(5)])
       (simp_all add: handler_wrapper_def assms(4))
  then show ?thesis
    by (simp add: sendable_def)
qed

theorem blocking_response_passed_on_witness:
  "endpoints (example_app ''Flask'') ''/predict'' =
     Some \<lparr>type = ''handler'', func = handler_wrapper predict\<rparr>
   \<and> \<not> lock (example_app ''Flask'')
   \<and> predict (ctx (example_app ''Flask'')) \<lparr>json = PyDict []\<rparr> =
       Inr (PyResponse 200 (PyDict [(''result'', PyInt 42)]))
   \<and> json_encodable (PyDict [(''result'', PyInt 42)])
   \<and> wire_response ''Flask'' (fst (dispatch (post ''predict'') (example_app ''Flask''))) =
       \<lparr>cls = FlaskResponse, content = Some (PyDict [(''result'', PyInt 42)]),
         status_code = 200, headers = [(''X-Endpoint-Type'', ''handler'')]\<rparr>
   \<and> snd (dispatch (post ''predict'') (example_app ''Flask'')) =
       example_app ''Flask''
         \<lparr>trace := [GetJson, LockAcquired, Invoked ''handler'', LockReleased], lock := False\<rparr>"
proof -
  have reg: "endpoints (example_app ''Flask'')
      (route_of (post ''predict'') (example_app ''Flask'')) =
      Some \<lparr>type = ''handler'', func = handler_wrapper predict\<rparr>"
    by (simp add: route_of_def endpoints_example_predict)
  have free: "\<not> lock (example_app ''Flask'')"
    by simp
  have body: "request_json (post ''predict'') (example_app ''Flask'') = Inr (PyDict [])"
    by (simp add: request_json_def)
  have returns: "predict (ctx (example_app ''Flask'')) \<lparr>json = PyDict []\<rparr> =
      Inr (PyResponse 200 (PyDict [(''result'', PyInt 42)]))"
    by (simp add: predict_def)
  have enc: "json_encodable (PyDict [(''result'', PyInt 42)])"
    by simp
  show ?thesis
    using blocking_response_passed_on [OF reg free body returns enc] free returns enc
    by (simp add: endpoints_example_predict)
qed

text \<open>
  Claim C8 as stated fails: the user function of the blocking endpoint at \<open>/\<close> returns
  \<open>Response(status=200, json={"blob": b"abc"})\<close>, a \<open>Response\<close> with a mapping payload.
  The JSON encoder refuses \<open>bytes\<close>, so the constructor call of line 120 raises inside
  the \<open>try\<close> and the \<open>except:\<close> clause answers: the caller is sent status 500, not
  status 200 with that payload.
\<close>

theorem blocking_response_passed_on_counterexample:
  "endpoints (blocking_app ''Flask'' blob) ''/'' =
     Some \<lparr>type = ''handler'', func = handler_wrapper blob\<rparr>
   \<and> \<not> lock (blocking_app ''Flask'' blob)
   \<and> blob (ctx (blocking_app ''Flask'' blob)) \<lparr>json = PyDict []\<rparr> =
       Inr (PyResponse 200 (PyDict [(''blob'', PyBytes ''abc'')]))
   \<and> handler_wrapper blob (ctx (blocking_app ''Flask'' blob)) \<lparr>json = PyDict []\<rparr> =
       Inr (PyResponse 200 (PyDict [(''blob'', PyBytes ''abc'')]))
   \<and> fst (dispatch (post '''') (blocking_app ''Flask'' blob)) =
       Inr (Some \<lparr>cls = StarletteJSONResponse,
                  content = Some (PyStr ''TypeError: Object is not JSON serializable''),
                  status_code = 500, headers = [(''X-Endpoint-Type'', ''handler'')]\<rparr>)
   \<and> status_code (wire_response ''Flask'' (fst (dispatch (post '''') (blocking_app ''Flask'' blob)))) =
       500
   \<and> status_code
        (wire_response ''FastAPI'' (fst (dispatch (post '''') (blocking_app ''FastAPI'' blob)))) =
       500"
proof -
  have d: "fst (dispatch (post '''') (blocking_app be blob)) =
     (if backend (blocking_app be blob) = ''FastAPI''
      then Inl (PyExc True ''RuntimeError'' ''Working outside of application context.'')
      else Inr (Some \<lparr>cls = StarletteJSONResponse,
                      content = Some (PyStr ''TypeError: Object is not JSON serializable''),
                      status_code = 500, headers = [(''X-Endpoint-Type'', ''handler'')]\<rparr>))" for be
    by (rule dispatch_handler_refused [where st = 200 and d = "[(''blob'', PyBytes ''abc'')]"
          and j = "if be = ''FastAPI'' then PyBytes ''{}'' else PyDict []"
          and endpoint = "\<lparr>type = ''handler'', func = handler_wrapper blob\<rparr>"])
       (simp_all add: route_of_def request_json_def handler_wrapper_def blob_def)
  show ?thesis
    by (simp add: d library_response_def sendable_def)
       (simp add: blob_def handler_wrapper_def)
qed

section \<open>The marker\<close>

lemma constructor_headers:
  "make_response c rv = Inr res \<Longrightarrow> headers res = []"
  "JSONResponse rv = Inr res \<Longrightarrow> headers res = []"
  by (auto simp: make_response_def JSONResponse_def
      split: if_splits option.splits pyval.splits)

lemma set_header_fresh:
  "headers res = [] \<Longrightarrow> headers (set_header k v (res\<lparr>status_code := c\<rparr>)) = [(k, v)]"
  "headers res = [] \<Longrightarrow> headers (set_header k v res) = [(k, v)]"
  by (simp_all add: set_header_def)

lemma except_branch_headers:
  "except_branch endpoint fr e s = (Inr res, s') \<Longrightarrow>
   headers res = [(''X-Endpoint-Type'', type endpoint)]"
  by (auto simp: except_branch_def Let_def set_header_fresh
      split: sum.splits if_splits dest: constructor_headers)

lemma try_branch_headers:
  "try_branch endpoint req fr s = (Inr res, s') \<Longrightarrow>
   headers res = [(''X-Endpoint-Type'', type endpoint)]"
  by (auto simp: try_branch_def Let_def set_header_fresh
      split: sum.splits pyval.splits if_splits
      dest: constructor_headers except_branch_headers)

text \<open>Every response object that \<open>_handle_generic\<close> returns has the marker, and it alone.\<close>

lemma handle_generic_headers:
  assumes "handle_generic route endpoint fr s = (Inr (Some res), s')"
  shows "headers res = [(''X-Endpoint-Type'', type endpoint)]"
proof (cases "is_working s")
  case True
  with assms show ?thesis
    by (auto simp: handle_generic_def Let_def set_header_fresh
        split: sum.splits if_splits dest: constructor_headers)
next
  case False
  obtain x s1 where rj: "req_json fr s = (x, s1)"
    by (cases "req_json fr s")
  show ?thesis
  proof (cases x)
    case (Inl e)
    with assms False rj show ?thesis
      by (simp add: handle_generic_def split: if_splits)
  next
    case (Inr j)
    obtain y s2 where w: "with_lock (try_branch endpoint \<lparr>json = j\<rparr> fr) s1 = (y, s2)"
      by (cases "with_lock (try_branch endpoint \<lparr>json = j\<rparr> fr) s1")
    then have t: "fst (try_branch endpoint \<lparr>json = j\<rparr> fr (log LockAcquired (s1\<lparr>lock := True\<rparr>))) = y"
      by (simp add: with_lock_eq)
    show ?thesis
    proof (cases "type endpoint = ''handler''")
      case True
      with assms False rj Inr w have "y = Inr res"
        by (auto simp: handle_generic_def Let_def split: sum.splits)
      with t try_branch_headers [of endpoint "\<lparr>json = j\<rparr>" fr
          "log LockAcquired (s1\<lparr>lock := True\<rparr>)" res]
      show ?thesis
        by (cases "try_branch endpoint \<lparr>json = j\<rparr> fr (log LockAcquired (s1\<lparr>lock := True\<rparr>))")
           simp
    next
      case no_handler: False
      with assms False rj Inr show ?thesis
        by (auto simp: handle_generic_def Let_def set_header_fresh
            split: sum.splits if_splits dest: constructor_headers)
    qed
  qed
qed

text \<open>
  Claim C9, amended. Every response that the gate builds for a registered route and that
  the backend can send as it is (the 200 of a blocking endpoint under either backend,
  the started acknowledgment under Flask) is sent with the header \<open>X-Endpoint-Type\<close>
  set to the type of the endpoint of that route.
\<close>

theorem sent_response_has_marker:
  assumes "endpoints s (route_of r s) = Some endpoint"
    and "fst (dispatch r s) = Inr (Some res)"
    and "sendable (backend s) res"
  shows "wire_response (backend s) (fst (dispatch r s)) = res
     \<and> get_header ''X-Endpoint-Type'' (wire_response (backend s) (fst (dispatch r s))) =
         Some (type endpoint)"
proof -
  from assms(2) have "handle_generic (route_of r s) endpoint
       (if backend s = ''FastAPI'' then Body (w_body r) else FlaskRequest (w_json r)) s =
     (Inr (Some res), snd (dispatch r s))"
    unfolding dispatch_route [OF assms(1)] by (simp add: prod_eq_iff)
  from handle_generic_headers [OF this]
  show ?thesis
    using assms(2,3) by (simp add: get_header_def)
qed

theorem sent_response_has_marker_witness:
  "endpoints (example_app ''Flask'') ''/train'' =
     Some \<lparr>type = ''background'', func = background_wrapper train\<rparr>
   \<and> fst (dispatch (post ''train'') (example_app ''Flask'')) =
       Inr (Some \<lparr>cls = FlaskResponse, content = Some (PyDict [(''started'', PyBool True)]),
                  status_code = 200, headers = [(''X-Endpoint-Type'', ''background'')]\<rparr>)
   \<and> sendable ''Flask''
       \<lparr>cls = FlaskResponse, content = Some (PyDict [(''started'', PyBool True)]),
         status_code = 200, headers = [(''X-Endpoint-Type'', ''background'')]\<rparr>
   \<and> wire_response ''Flask'' (fst (dispatch (post ''train'') (example_app ''Flask''))) =
       \<lparr>cls = FlaskResponse, content = Some (PyDict [(''started'', PyBool True)]),
         status_code = 200, headers = [(''X-Endpoint-Type'', ''background'')]\<rparr>
   \<and> get_header ''X-Endpoint-Type''
       (wire_response ''Flask'' (fst (dispatch (post ''train'') (example_app ''Flask'')))) =
       Some ''background''"
proof -
  let ?res = "\<lparr>cls = FlaskResponse, content = Some (PyDict [(''started'', PyBool True)]),
         status_code = 200, headers = [(''X-Endpoint-Type'', ''background'')]\<rparr>"
  have reg: "endpoints (example_app ''Flask'') (route_of (post ''train'') (example_app ''Flask'')) =
      Some \<lparr>type = ''background'', func = background_wrapper train\<rparr>"
    by (simp add: route_of_def endpoints_example)
  have d: "fst (dispatch (post ''train'') (example_app ''Flask'')) = Inr (Some ?res)"
    by (subst dispatch_background [where j = "PyDict []"
          and endpoint = "\<lparr>type = ''background'', func = background_wrapper train\<rparr>"])
       (simp_all add: route_of_def request_json_def endpoints_example)
  have ok: "sendable (backend (example_app ''Flask'')) ?res"
    by (simp add: sendable_def)
  show ?thesis
    using sent_response_has_marker [OF reg d ok] d ok
    by (simp add: endpoints_example)
qed

text \<open>
  Claim C9 as stated fails for the 404: for a route that is not registered \<open>handle\<close>
  raises before any endpoint is known and before any header is set, and the error page
  that the library sends for it has no \<open>X-Endpoint-Type\<close> header.
\<close>

theorem sent_response_has_marker_counterexample:
  "endpoints (example_app ''Flask'') ''/missing'' = None
   \<and> fst (dispatch (post ''missing'') (example_app ''Flask'')) = Inl (HTTPException 404)
   \<and> status_code (wire_response ''Flask''
        (fst (dispatch (post ''missing'') (example_app ''Flask'')))) = 404
   \<and> get_header ''X-Endpoint-Type''
        (wire_response ''Flask'' (fst (dispatch (post ''missing'') (example_app ''Flask'')))) = None
   \<and> endpoints (example_app ''FastAPI'') ''/'' = None
   \<and> fst (dispatch (post ''missing'') (example_app ''FastAPI'')) = Inl (HTTPException 404)
   \<and> get_header ''X-Endpoint-Type''
        (wire_response ''FastAPI'' (fst (dispatch (post ''missing'') (example_app ''FastAPI'')))) =
        None"
proof -
  have none: "endpoints (example_app be) (route_of (post ''missing'') (example_app be)) = None"
    for be
    by (simp add: route_of_def endpoints_example)
  show ?thesis
    by (simp add: dispatch_no_route [OF none] library_response_def get_header_def
        endpoints_example)
qed

end
